theory Spec2Isabelle
  imports Complex_Main
begin

section \<open>Values of the Python program\<close>

text \<open>
  A Python float is a finite value, given as the real number it stands for, or one of
  the three special values: \<open>float("inf")\<close> is the initial best score, and comparisons
  with NaN are all false. The sign of zero is not kept.
\<close>

datatype pyfloat = Fin real | PInf | NInf | NaN

text \<open>
  Rounding of a real number to a float, as every arithmetic operation on floats does it
  (IEEE 754 binary64, round to nearest, ties to even): the result is the multiple of
  \<open>2 ^ (e - 52)\<close> nearest to \<open>x\<close>, where \<open>e\<close> is the binary exponent of \<open>x\<close>, and not
  below \<open>-1022\<close>; a result of magnitude \<open>2 ^ 1024\<close> or more is an infinity.
\<close>

definition round_half_even :: "real \<Rightarrow> int" where
  "round_half_even y =
     (let f = \<lfloor>y\<rfloor>; d = y - real_of_int f
      in if d < 1 / 2 then f else if 1 / 2 < d then f + 1 else if even f then f else f + 1)"

definition binade :: "real \<Rightarrow> int" where
  "binade x = \<lfloor>log 2 \<bar>x\<bar>\<rfloor>"

definition fl :: "real \<Rightarrow> pyfloat" where
  "fl x =
     (if x = 0 then Fin 0
      else let q = 2 powr real_of_int (max (binade x) (- 1022) - 52);
               r = real_of_int (round_half_even (x / q)) * q
           in if 2 ^ 1024 \<le> \<bar>r\<bar> then (if 0 < x then PInf else NInf) else Fin r)"

text \<open>The operator \<open><\<close> on floats.\<close>

fun pf_lt :: "pyfloat \<Rightarrow> pyfloat \<Rightarrow> bool" where
  "pf_lt NaN _ = False"
| "pf_lt _ NaN = False"
| "pf_lt (Fin a) (Fin b) = (a < b)"
| "pf_lt (Fin a) PInf = True"
| "pf_lt (Fin a) NInf = False"
| "pf_lt PInf _ = False"
| "pf_lt NInf NInf = False"
| "pf_lt NInf _ = True"

text \<open>The operator \<open><=\<close> on floats.\<close>

fun pf_le :: "pyfloat \<Rightarrow> pyfloat \<Rightarrow> bool" where
  "pf_le NaN _ = False"
| "pf_le _ NaN = False"
| "pf_le a b = (a = b \<or> pf_lt a b)"

text \<open>
  The builtin \<open>min(a, b)\<close> keeps its first argument unless the second compares
  strictly smaller.
\<close>

definition py_min :: "pyfloat \<Rightarrow> pyfloat \<Rightarrow> pyfloat" where
  "py_min a b = (if pf_lt b a then b else a)"

text \<open>
  Float addition and the division of a float by a count, as the average of the losses
  uses them. Their results are not rounded.
\<close>

fun pf_add :: "pyfloat \<Rightarrow> pyfloat \<Rightarrow> pyfloat" where
  "pf_add NaN _ = NaN"
| "pf_add _ NaN = NaN"
| "pf_add (Fin a) (Fin b) = Fin (a + b)"
| "pf_add PInf NInf = NaN"
| "pf_add NInf PInf = NaN"
| "pf_add PInf _ = PInf"
| "pf_add NInf _ = NInf"
| "pf_add (Fin a) b = b"

fun pf_div_count :: "pyfloat \<Rightarrow> nat \<Rightarrow> pyfloat" where
  "pf_div_count x 0 = NaN"
| "pf_div_count (Fin a) n = Fin (a / real n)"
| "pf_div_count x n = x"

text \<open>\<open>numpy.average\<close> of a list of floats: the sum divided by the length.\<close>

definition np_average :: "pyfloat list \<Rightarrow> pyfloat" where
  "np_average xs = pf_div_count (foldl pf_add (Fin 0) xs) (length xs)"

text \<open>A value stored in a score dictionary: a float, or \<open>None\<close>.\<close>

datatype pyval = PyNone | PyFloat pyfloat

text \<open>Truth value of an object in a condition: \<open>None\<close> and zero are false, NaN is true.\<close>

fun truthy :: "pyval \<Rightarrow> bool" where
  "truthy PyNone = False"
| "truthy (PyFloat (Fin r)) = (r \<noteq> 0)"
| "truthy (PyFloat _) = True"

datatype error =
  AttributeError | KeyError | ZeroDivisionError | ValueError | OverflowError | TypeError

text \<open>
  The float product \<open>x * 1000.0\<close>, \<open>math.ceil\<close>, and the division \<open>n / 1000.0\<close> of an
  integer by a float, which first converts the integer to a float and raises
  \<open>OverflowError\<close> when it is too large for one.
\<close>

fun pf_times_1000 :: "pyfloat \<Rightarrow> pyfloat" where
  "pf_times_1000 (Fin r) = fl (r * 1000)"
| "pf_times_1000 x = x"

fun math_ceil :: "pyfloat \<Rightarrow> error + int" where
  "math_ceil (Fin r) = Inr \<lceil>r\<rceil>"
| "math_ceil NaN = Inl ValueError"
| "math_ceil PInf = Inl OverflowError"
| "math_ceil NInf = Inl OverflowError"

definition int_div_1000 :: "int \<Rightarrow> error + pyfloat" where
  "int_div_1000 n =
     (case fl (real_of_int n) of
        Fin m \<Rightarrow> Inr (fl (m / 1000))
      | _ \<Rightarrow> Inl OverflowError)"

text \<open>The remainder \<open>a % b\<close> on integers raises for a zero divisor.\<close>

definition py_mod :: "int \<Rightarrow> int \<Rightarrow> error + int" where
  "py_mod a b = (if b = 0 then Inl ZeroDivisionError else Inr (a mod b))"


section \<open>Collaborators, effects and the trace\<close>

text \<open>
  The state of the model, the optimizer, the sampler and the scoring engine is an opaque
  value of type \<open>'w\<close>. A checkpoint dictionary has the keys \<open>step\<close>, \<open>min_loss\<close> and
  the three snapshots \<open>arch\<close>, \<open>state_dict\<close>, \<open>optimizer\<close>, kept together as one
  value of type \<open>'w\<close>.
\<close>

record 'w checkpoint =
  ck_step :: int
  ck_state :: 'w
  ck_min_loss :: pyfloat

text \<open>The arguments given to \<open>ReduceLROnPlateau\<close>.\<close>

record scheduler =
  mode :: string
  patience :: int
  verbose :: bool
  factor :: pyfloat

text \<open>A cell of a tab-separated line of a metrics log: a formatted value or fixed text.\<close>

datatype cell = Val pyval | Lit string

text \<open>
  Every call that changes something outside the orchestrator object is an event. Calls
  to the diagnostic logger \<open>selene\<close> and to \<open>print\<close> are left out.
\<close>

datatype 'w event =
    OptimizerInit
  | SetNumThreads int
  | DataParallelWrap
  | Cuda
  | MakeDirs
  | InitializeLogger
  | GetValidationSet int "int option"
  | GetTestSet int "int option"
  | SaveTestTargets
  | TorchLoad
  | LoadModelState
  | OptimizerLoadState
  | MetricsLoggerOpen string
  | MetricsLog string "cell list"
  | ModelTrain
  | ModelEval
  | SetMode string
  | Sample int
  | ZeroGrad
  | Backward
  | OptimizerStep
  | MetricsUpdate
  | SchedulerInit scheduler
  | SchedulerStep scheduler pyfloat
  | TorchSave "'w checkpoint" string
  | CopyFile string string
  | SaveDatasetToFile string bool

text \<open>
  The collaborators. A batch is a pair of an array of inputs and an array of targets,
  each a list of rows. Collaborator calls are taken to return; what they return and how
  they change the opaque state is left open.
\<close>

record ('w, 'x, 'r, 'p) collab =
  modes :: "string list"
  get_validation_set :: "int \<Rightarrow> int option \<Rightarrow> 'w \<Rightarrow> ('x list \<times> 'r list) list \<times> 'r list"
  get_test_set :: "int \<Rightarrow> int option \<Rightarrow> 'w \<Rightarrow> ('x list \<times> 'r list) list \<times> 'r list"
  sample :: "int \<Rightarrow> 'w \<Rightarrow> 'x list \<times> 'r list"
  model_fn :: "'w \<Rightarrow> 'x list \<Rightarrow> 'p list"
  criterion :: "'p list \<Rightarrow> 'r list \<Rightarrow> pyfloat"
  metrics_update :: "'w \<Rightarrow> 'p list \<Rightarrow> 'r list \<Rightarrow> (string \<rightharpoonup> pyval)"
  effect :: "'w event \<Rightarrow> 'w \<Rightarrow> 'w"

text \<open>The opaque state together with the trace of events so far.\<close>

type_synonym 'w world = "'w \<times> 'w event list"

definition call :: "('w, 'x, 'r, 'p) collab \<Rightarrow> 'w event \<Rightarrow> 'w world \<Rightarrow> 'w world" where
  "call c e s = (effect c e (fst s), snd s @ [e])"


section \<open>The orchestrator object and its constructor\<close>

text \<open>The constructor's arguments that the control logic reads.\<close>

record config =
  batch_size_arg :: int
  max_steps_arg :: int
  report_stats_every_n_steps :: int
  save_checkpoint_every_n_steps :: "int option"
  n_validation_samples :: "int option"
  n_test_samples :: "int option"
  cpu_n_threads :: int
  use_cuda_arg :: bool
  data_parallel_arg :: bool

text \<open>
  The attributes of a \<open>TrainModel\<close> object. The field \<open>max_step\<close> is the attribute of
  that name, which the resume branch reads and writes; \<open>None\<close> means that it has not
  been assigned.
\<close>

record ('x, 'r) orchestrator =
  batch_size :: int
  max_steps :: int
  max_step :: "int option"
  nth_step_report_stats :: int
  nth_step_save_checkpoint :: int
  use_cuda :: bool
  data_parallel :: bool
  validation_data :: "('x list \<times> 'r list) list"
  all_validation_targets :: "'r list"
  test_data :: "('x list \<times> 'r list) list option"
  all_test_targets :: "'r list option"
  start_step :: int
  min_loss :: pyfloat

text \<open>
  The condition \<open>not save_checkpoint_every_n_steps\<close> holds for \<open>None\<close> and for zero.
\<close>

definition checkpoint_cadence :: "config \<Rightarrow> int" where
  "checkpoint_cadence cfg =
     (case save_checkpoint_every_n_steps cfg of
        None \<Rightarrow> report_stats_every_n_steps cfg
      | Some n \<Rightarrow> if n = 0 then report_stats_every_n_steps cfg else n)"

text \<open>The constructor up to the line that sets the initial best score.\<close>

definition init_setup ::
  "('w, 'x, 'r, 'p) collab \<Rightarrow> config \<Rightarrow> 'w world \<Rightarrow> ('x, 'r) orchestrator \<times> 'w world" where
  "init_setup c cfg s0 =
     (let s1 = call c OptimizerInit s0;
          s2 = call c (SetNumThreads (cpu_n_threads cfg)) s1;
          s3 = (if data_parallel_arg cfg then call c DataParallelWrap s2 else s2);
          s4 = (if use_cuda_arg cfg then call c Cuda s3 else s3);
          s5 = call c MakeDirs s4;
          s6 = call c InitializeLogger s5;
          vs = get_validation_set c (batch_size_arg cfg) (n_validation_samples cfg) (fst s6);
          s7 = call c (GetValidationSet (batch_size_arg cfg) (n_validation_samples cfg)) s6;
          ts = (if ''test'' \<in> set (modes c)
                then Some (get_test_set c (batch_size_arg cfg) (n_test_samples cfg) (fst s7))
                else None);
          s8 = (if ''test'' \<in> set (modes c)
                then call c SaveTestTargets
                       (call c (GetTestSet (batch_size_arg cfg) (n_test_samples cfg)) s7)
                else s7)
      in (\<lparr> batch_size = batch_size_arg cfg,
            max_steps = max_steps_arg cfg,
            max_step = None,
            nth_step_report_stats = report_stats_every_n_steps cfg,
            nth_step_save_checkpoint = checkpoint_cadence cfg,
            use_cuda = use_cuda_arg cfg,
            data_parallel = data_parallel_arg cfg,
            validation_data = fst vs,
            all_validation_targets = snd vs,
            test_data = map_option fst ts,
            all_test_targets = map_option snd ts,
            start_step = 0,
            min_loss = PInf \<rparr>, s8))"

text \<open>
  The branch \<open>if checkpoint_resume is not None\<close>. The checkpoint is the dictionary that
  \<open>torch.load\<close> returns. The comparison and the update read the attribute
  \<open>max_step\<close>, and reading an attribute that was never assigned raises.
\<close>

definition init_resume ::
  "('w, 'x, 'r, 'p) collab \<Rightarrow> 'w checkpoint \<Rightarrow> ('x, 'r) orchestrator \<Rightarrow> 'w world \<Rightarrow>
     (error + ('x, 'r) orchestrator) \<times> 'w world" where
  "init_resume c checkpoint self s0 =
     (let s1 = call c TorchLoad s0;
          s2 = call c LoadModelState s1;
          self1 = self\<lparr>start_step := ck_step checkpoint\<rparr>
      in case max_step self1 of
           None \<Rightarrow> (Inl AttributeError, s2)
         | Some v \<Rightarrow>
             (let self2 = (if start_step self1 \<ge> v
                           then self1\<lparr>max_step := Some (v + start_step self1)\<rparr>
                           else self1);
                  self3 = self2\<lparr>min_loss := ck_min_loss checkpoint\<rparr>;
                  s3 = call c OptimizerLoadState s2
              in (Inr self3, s3)))"

text \<open>The end of the constructor: the two metrics logs are opened and get their headers.\<close>

definition init_loggers :: "('w, 'x, 'r, 'p) collab \<Rightarrow> 'w world \<Rightarrow> 'w world" where
  "init_loggers c s0 =
     (let s1 = call c (MetricsLoggerOpen ''train'') s0;
          s2 = call c (MetricsLoggerOpen ''validation'') s1;
          s3 = call c (MetricsLog ''train'' [Lit ''loss'']) s2
      in call c (MetricsLog ''validation'' [Lit ''loss'', Lit ''roc_auc'']) s3)"

definition init ::
  "('w, 'x, 'r, 'p) collab \<Rightarrow> config \<Rightarrow> 'w checkpoint option \<Rightarrow> 'w world \<Rightarrow>
     (error + ('x, 'r) orchestrator) \<times> 'w world" where
  "init c cfg checkpoint_resume s0 =
     (case init_setup c cfg s0 of (self, s1) \<Rightarrow>
        (case checkpoint_resume of
           None \<Rightarrow> (Inr self, init_loggers c s1)
         | Some checkpoint \<Rightarrow>
             (case init_resume c checkpoint self s1 of
                (Inl e, s2) \<Rightarrow> (Inl e, s2)
              | (Inr self', s2) \<Rightarrow> (Inr self', init_loggers c s2))))"


section \<open>One training step\<close>

text \<open>
  \<open>train\<close>: the model is put in training mode, the sampler in mode \<open>train\<close>, one batch
  is sampled, the loss of the model's predictions is computed, and the gradients are
  zeroed, propagated and applied. The result is \<open>loss.item()\<close>.
\<close>

definition train ::
  "('w, 'x, 'r, 'p) collab \<Rightarrow> ('x, 'r) orchestrator \<Rightarrow> 'w world \<Rightarrow> pyfloat \<times> 'w world" where
  "train c self s0 =
     (let s1 = call c ModelTrain s0;
          s2 = call c (SetMode ''train'') s1;
          batch = sample c (batch_size self) (fst s2);
          s3 = call c (Sample (batch_size self)) s2;
          predictions = model_fn c (fst s3) (fst batch);
          loss = criterion c predictions (snd batch);
          s4 = call c ZeroGrad s3;
          s5 = call c Backward s4;
          s6 = call c OptimizerStep s5
      in (loss, s6))"


section \<open>Evaluation\<close>

text \<open>
  The loop of \<open>_evaluate_on_data\<close> over the batches, with its two lists
  \<open>batch_losses\<close> and \<open>all_predictions\<close>, each extended by \<open>append\<close>.
\<close>

fun evaluate_batches ::
  "('w, 'x, 'r, 'p) collab \<Rightarrow> 'w \<Rightarrow> ('x list \<times> 'r list) list \<Rightarrow>
     pyfloat list \<times> 'p list list \<Rightarrow> pyfloat list \<times> 'p list list" where
  "evaluate_batches c w [] acc = acc"
| "evaluate_batches c w ((inputs, targets) # rest) (batch_losses, all_predictions) =
     (let predictions = model_fn c w inputs;
          loss = criterion c predictions targets
      in evaluate_batches c w rest (batch_losses @ [loss], all_predictions @ [predictions]))"

text \<open>
  \<open>numpy.vstack\<close> stacks the arrays of a list row-wise, and raises \<open>ValueError\<close> for
  an empty list. The rows are taken to have one width.
\<close>

definition np_vstack :: "'p list list \<Rightarrow> error + 'p list" where
  "np_vstack arrays = (if arrays = [] then Inl ValueError else Inr (concat arrays))"

definition evaluate_on_data ::
  "('w, 'x, 'r, 'p) collab \<Rightarrow> ('x list \<times> 'r list) list \<Rightarrow> 'w world \<Rightarrow>
     (error + pyfloat \<times> 'p list) \<times> 'w world" where
  "evaluate_on_data c data_in_batches s0 =
     (let s1 = call c ModelEval s0 in
      case evaluate_batches c (fst s1) data_in_batches ([], []) of
        (batch_losses, all_predictions) \<Rightarrow>
          (case np_vstack all_predictions of
             Inl e \<Rightarrow> (Inl e, s1)
           | Inr table \<Rightarrow> (Inr (np_average batch_losses, table), s1)))"

text \<open>
  \<open>validate\<close>: the validation set is evaluated, the scoring engine turns the
  predictions into a dictionary of scores, and the average loss is stored under \<open>loss\<close>.
\<close>

definition validate ::
  "('w, 'x, 'r, 'p) collab \<Rightarrow> ('x, 'r) orchestrator \<Rightarrow> 'w world \<Rightarrow>
     (error + (string \<rightharpoonup> pyval)) \<times> 'w world" where
  "validate c self s0 =
     (case evaluate_on_data c (validation_data self) s0 of
        (Inl e, s1) \<Rightarrow> (Inl e, s1)
      | (Inr (average_loss, all_predictions), s1) \<Rightarrow>
          (let average_scores =
                 metrics_update c (fst s1) all_predictions (all_validation_targets self);
               s2 = call c MetricsUpdate s1
           in (Inr (average_scores(''loss'' \<mapsto> PyFloat average_loss)), s2)))"


section \<open>Checkpoints\<close>

text \<open>
  \<open>_save_checkpoint\<close> writes the state to \<open>checkpoint.pth.tar\<close> and, when
  \<open>is_best\<close> holds, copies that file to \<open>best_model.pth.tar\<close>.
\<close>

definition save_checkpoint ::
  "('w, 'x, 'r, 'p) collab \<Rightarrow> 'w checkpoint \<Rightarrow> bool \<Rightarrow> 'w world \<Rightarrow> 'w world" where
  "save_checkpoint c state is_best s0 =
     (let s1 = call c (TorchSave state ''checkpoint.pth.tar'') s0
      in if is_best then call c (CopyFile ''checkpoint.pth.tar'' ''best_model.pth.tar'') s1
         else s1)"


section \<open>The run loop\<close>

text \<open>The scheduler that \<open>train_and_validate\<close> creates.\<close>

definition lr_scheduler :: scheduler where
  "lr_scheduler = \<lparr> mode = ''max'', patience = 16, verbose = True, factor = fl (8 / 10) \<rparr>"

text \<open>
  The lines from the lookup of \<open>roc_auc\<close> to the end of that conditional: a missing key
  raises, a true value is logged and handed to the scheduler after
  \<open>math.ceil(v * 1000.0) / 1000.0\<close>, any other value is logged as \<open>NA\<close>.
\<close>

definition log_and_schedule ::
  "('w, 'x, 'r, 'p) collab \<Rightarrow> (string \<rightharpoonup> pyval) \<Rightarrow> pyval \<Rightarrow> 'w world \<Rightarrow>
     (error + unit) \<times> 'w world" where
  "log_and_schedule c valid_scores validation_loss s0 =
     (case valid_scores ''roc_auc'' of
        None \<Rightarrow> (Inl KeyError, s0)
      | Some validation_roc_auc \<Rightarrow>
          if truthy validation_roc_auc then
            (let s1 = call c (MetricsLog ''validation''
                               [Val validation_loss, Val validation_roc_auc]) s0
             in case validation_roc_auc of
                  PyNone \<Rightarrow> (Inl TypeError, s1)
                | PyFloat v \<Rightarrow>
                    (case math_ceil (pf_times_1000 v) of
                       Inl e \<Rightarrow> (Inl e, s1)
                     | Inr n \<Rightarrow>
                         (case int_div_1000 n of
                            Inl e \<Rightarrow> (Inl e, s1)
                          | Inr x \<Rightarrow>
                              (Inr (), call c (SchedulerStep lr_scheduler x) s1))))
          else
            (Inr (), call c (MetricsLog ''validation'' [Val validation_loss, Lit ''NA'']) s0))"

text \<open>
  The body of the reporting branch. It returns the new value of the local variable
  \<open>min_loss\<close>.
\<close>

definition report_stats ::
  "('w, 'x, 'r, 'p) collab \<Rightarrow> ('x, 'r) orchestrator \<Rightarrow> int \<Rightarrow> pyfloat \<Rightarrow> pyfloat \<Rightarrow>
     'w world \<Rightarrow> (error + pyfloat) \<times> 'w world" where
  "report_stats c self step train_loss min_loss_v s0 =
     (case validate c self s0 of
        (Inl e, s1) \<Rightarrow> (Inl e, s1)
      | (Inr valid_scores, s1) \<Rightarrow>
          (case valid_scores ''loss'' of
             None \<Rightarrow> (Inl KeyError, s1)
           | Some validation_loss \<Rightarrow>
               (let s2 = call c (MetricsLog ''train'' [Val (PyFloat train_loss)]) s1 in
                case log_and_schedule c valid_scores validation_loss s2 of
                  (Inl e, s3) \<Rightarrow> (Inl e, s3)
                | (Inr _, s3) \<Rightarrow>
                    (case validation_loss of
                       PyNone \<Rightarrow> (Inl TypeError, s3)
                     | PyFloat vl \<Rightarrow>
                         (let is_best = pf_lt vl min_loss_v;
                              min_loss_v' = py_min vl min_loss_v
                          in (Inr min_loss_v',
                              save_checkpoint c
                                \<lparr> ck_step = step, ck_state = fst s3,
                                  ck_min_loss = min_loss_v' \<rparr> is_best s3))))))"

text \<open>
  The state of the loop: the local variable \<open>min_loss\<close>, the world, and a history with
  one entry per iteration entered, holding the values of \<open>step\<close> and \<open>train_loss\<close>.
  The history is not a variable of the program.
\<close>

record 'w loop_state =
  min_loss_var :: pyfloat
  world :: "'w world"
  history :: "(int \<times> pyfloat) list"

text \<open>
  The condition \<open>step and step % self.nth_step_report_stats == 0\<close>: the remainder is
  only computed for a step other than zero.
\<close>

definition report_due :: "('x, 'r) orchestrator \<Rightarrow> int \<Rightarrow> error + bool" where
  "report_due self step =
     (if step = 0 then Inr False
      else case py_mod step (nth_step_report_stats self) of
             Inl e \<Rightarrow> Inl e
           | Inr r \<Rightarrow> Inr (r = 0))"

text \<open>One iteration of the loop. The first component is the exception raised, if any.\<close>

definition loop_body ::
  "('w, 'x, 'r, 'p) collab \<Rightarrow> ('x, 'r) orchestrator \<Rightarrow> int \<Rightarrow> 'w loop_state \<Rightarrow>
     error option \<times> 'w loop_state" where
  "loop_body c self step ls =
     (case train c self (world ls) of (train_loss, s1) \<Rightarrow>
        (let ls1 = ls\<lparr>world := s1, history := history ls @ [(step, train_loss)]\<rparr> in
         case report_due self step of
           Inl e \<Rightarrow> (Some e, ls1)
         | Inr due \<Rightarrow>
             (case (if due
                    then report_stats c self step train_loss (min_loss_var ls1) s1
                    else (Inr (min_loss_var ls1), s1)) of
                (Inl e, s2) \<Rightarrow> (Some e, ls1\<lparr>world := s2\<rparr>)
              | (Inr min_loss_v, s2) \<Rightarrow>
                  (let ls2 = ls1\<lparr>min_loss_var := min_loss_v, world := s2\<rparr> in
                   case py_mod step (nth_step_save_checkpoint self) of
                     Inl e \<Rightarrow> (Some e, ls2)
                   | Inr r \<Rightarrow>
                       if r = 0
                       then (None, ls2\<lparr>world :=
                               save_checkpoint c
                                 \<lparr> ck_step = step, ck_state = fst s2,
                                   ck_min_loss = min_loss_v \<rparr> False s2\<rparr>)
                       else (None, ls2)))))"

text \<open>The \<open>for\<close> loop over the steps; an exception ends it.\<close>

fun for_steps ::
  "('w, 'x, 'r, 'p) collab \<Rightarrow> ('x, 'r) orchestrator \<Rightarrow> int list \<Rightarrow> 'w loop_state \<Rightarrow>
     error option \<times> 'w loop_state" where
  "for_steps c self [] ls = (None, ls)"
| "for_steps c self (step # rest) ls =
     (case loop_body c self step ls of
        (Some e, ls') \<Rightarrow> (Some e, ls')
      | (None, ls') \<Rightarrow> for_steps c self rest ls')"

text \<open>
  \<open>train_and_validate\<close>: the steps are those of \<open>range(self._start_step,
  self.max_steps)\<close>; after the loop the sampler is told to close the training data.
\<close>

definition train_and_validate ::
  "('w, 'x, 'r, 'p) collab \<Rightarrow> ('x, 'r) orchestrator \<Rightarrow> 'w world \<Rightarrow>
     error option \<times> 'w loop_state" where
  "train_and_validate c self s0 =
     (let s1 = call c (SchedulerInit lr_scheduler) s0 in
      case for_steps c self [start_step self .. max_steps self - 1]
             \<lparr> min_loss_var = min_loss self, world = s1, history = [] \<rparr> of
        (Some e, ls) \<Rightarrow> (Some e, ls)
      | (None, ls) \<Rightarrow>
          (None, ls\<lparr>world := call c (SaveDatasetToFile ''train'' True) (world ls)\<rparr>))"


section \<open>Reading a trace\<close>

text \<open>The values handed to the scheduler, with the scheduler's arguments.\<close>

definition scheduler_steps :: "'w event list \<Rightarrow> (scheduler \<times> pyfloat) list" where
  "scheduler_steps tr =
     concat (map (\<lambda>e. case e of SchedulerStep sch v \<Rightarrow> [(sch, v)] | _ \<Rightarrow> []) tr)"

text \<open>The lines written to the metrics log of a given name.\<close>

definition metrics_lines :: "string \<Rightarrow> 'w event list \<Rightarrow> cell list list" where
  "metrics_lines name tr =
     concat (map (\<lambda>e. case e of MetricsLog n cells \<Rightarrow> (if n = name then [cells] else [])
                              | _ \<Rightarrow> []) tr)"

text \<open>The number of optimizer updates.\<close>

definition optimizer_updates :: "'w event list \<Rightarrow> nat" where
  "optimizer_updates tr = length (filter (\<lambda>e. case e of OptimizerStep \<Rightarrow> True | _ \<Rightarrow> False) tr)"

text \<open>
  The validation losses that a trace shows: the first column of each line of the
  validation log that starts with a number.
\<close>

definition observed_validation_losses :: "'w event list \<Rightarrow> pyfloat list" where
  "observed_validation_losses tr =
     concat (map (\<lambda>e. case e of
                         MetricsLog n (Val (PyFloat vl) # cells) \<Rightarrow>
                           (if n = ''validation'' then [vl] else [])
                       | _ \<Rightarrow> []) tr)"

text \<open>
  The course of a run in short: optimizer updates, evaluation passes, lines of the two
  metrics logs that start with a value (the header lines start with text), checkpoint
  writes with their step, and copies of the checkpoint to the best slot.
\<close>

datatype mark = Update | Evaluation | TrainLine | ValidationLine | Save int | BestCopy

definition marks :: "'w event list \<Rightarrow> mark list" where
  "marks tr =
     concat (map (\<lambda>e. case e of
                         OptimizerStep \<Rightarrow> [Update]
                       | ModelEval \<Rightarrow> [Evaluation]
                       | MetricsLog n (Val v # cells) \<Rightarrow>
                           (if n = ''train'' then [TrainLine]
                            else if n = ''validation'' then [ValidationLine] else [])
                       | TorchSave ck p \<Rightarrow> [Save (ck_step ck)]
                       | CopyFile src dst \<Rightarrow>
                           (if dst = ''best_model.pth.tar'' then [BestCopy] else [])
                       | _ \<Rightarrow> []) tr)"

text \<open>
  The files of the output directory. \<open>torch.save\<close> and \<open>shutil.copyfile\<close> overwrite
  their destination. \<open>best_slot_writes\<close> lists the successive contents of
  \<open>best_model.pth.tar\<close> that a trace produces, starting from given files.
\<close>

fun best_slot_writes ::
  "(string \<rightharpoonup> 'w checkpoint) \<Rightarrow> 'w event list \<Rightarrow> 'w checkpoint list" where
  "best_slot_writes files [] = []"
| "best_slot_writes files (e # es) =
     (case e of
        TorchSave ck p \<Rightarrow>
          (if p = ''best_model.pth.tar'' then [ck] else [])
            @ best_slot_writes (files(p \<mapsto> ck)) es
      | CopyFile src dst \<Rightarrow>
          (case files src of
             None \<Rightarrow> best_slot_writes files es
           | Some ck \<Rightarrow>
               (if dst = ''best_model.pth.tar'' then [ck] else [])
                 @ best_slot_writes (files(dst \<mapsto> ck)) es)
      | _ \<Rightarrow> best_slot_writes files es)"


section \<open>A concrete set of collaborators\<close>

text \<open>
  The opaque state counts the optimizer updates. The model predicts that count for every
  input row, the loss of a batch is \<open>loss_of\<close> applied to the first prediction, and the
  scoring engine returns the dictionary \<open>scores\<close>. The validation set has two batches.
\<close>

definition demo_collab ::
  "(nat \<Rightarrow> pyfloat) \<Rightarrow> (string \<rightharpoonup> pyval) \<Rightarrow> (nat, nat, nat, nat) collab" where
  "demo_collab loss_of scores =
     \<lparr> modes = [''train'', ''validation''],
       get_validation_set = (\<lambda>bs n w. ([([1, 2], [10, 20]), ([3], [30])], [10, 20, 30])),
       get_test_set = (\<lambda>bs n w. ([], [])),
       sample = (\<lambda>bs w. ([7], [70])),
       model_fn = (\<lambda>w inputs. map (\<lambda>x. w) inputs),
       criterion = (\<lambda>predictions targets. loss_of (hd predictions)),
       metrics_update = (\<lambda>w predictions targets. scores),
       effect = (\<lambda>e w. case e of OptimizerStep \<Rightarrow> Suc w | _ \<Rightarrow> w) \<rparr>"

definition demo_config :: "int \<Rightarrow> int \<Rightarrow> int option \<Rightarrow> config" where
  "demo_config m report save =
     \<lparr> batch_size_arg = 1, max_steps_arg = m, report_stats_every_n_steps = report,
       save_checkpoint_every_n_steps = save, n_validation_samples = None,
       n_test_samples = None, cpu_n_threads = 32, use_cuda_arg = False,
       data_parallel_arg = False \<rparr>"

text \<open>An orchestrator object over the validation set of these collaborators.\<close>

definition demo_self ::
  "int \<Rightarrow> int \<Rightarrow> int \<Rightarrow> int \<Rightarrow> pyfloat \<Rightarrow> (nat, nat) orchestrator" where
  "demo_self start m report save ml =
     \<lparr> batch_size = 1, max_steps = m, max_step = None, nth_step_report_stats = report,
       nth_step_save_checkpoint = save, use_cuda = False, data_parallel = False,
       validation_data = [([1, 2], [10, 20]), ([3], [30])],
       all_validation_targets = [10, 20, 30], test_data = None, all_test_targets = None,
       start_step = start, min_loss = ml \<rparr>"


section \<open>Predicates of the specification\<close>

text \<open>
  The invariant that the specification states for a configuration: batch size above
  zero, step count not negative, cadences above zero. An unset checkpoint cadence stands
  for the reporting cadence.
\<close>

definition valid_config :: "config \<Rightarrow> bool" where
  "valid_config cfg \<longleftrightarrow>
     0 < batch_size_arg cfg \<and> 0 \<le> max_steps_arg cfg \<and> 0 < report_stats_every_n_steps cfg
     \<and> (case save_checkpoint_every_n_steps cfg of None \<Rightarrow> True | Some n \<Rightarrow> 0 < n)"

text \<open>
  The specification's wording for the value given to the rate-decay policy: the score
  rounded to three decimal digits, that is, the float of the multiple of one thousandth
  nearest to the score.
\<close>

definition spec_rounded_3_digits :: "real \<Rightarrow> pyfloat" where
  "spec_rounded_3_digits x = fl (real_of_int (round (x * 1000)) / 1000)"


section \<open>Basic facts\<close>

lemma validate_loss:
  "validate c self s0 = (Inr scores, s1) \<Longrightarrow> \<exists>vl. scores ''loss'' = Some (PyFloat vl)"
  by (auto simp: validate_def Let_def split: prod.splits sum.splits)

lemma validate_ok_trace:
  "validate c self s0 = (Inr scores, s1) \<Longrightarrow> snd s1 = snd s0 @ [ModelEval, MetricsUpdate]"
  by (auto simp: validate_def evaluate_on_data_def call_def Let_def
      split: prod.splits sum.splits)

lemma demo_self_fields:
  "start_step (demo_self a m r sv ml) = a" "max_steps (demo_self a m r sv ml) = m"
  "nth_step_report_stats (demo_self a m r sv ml) = r"
  "nth_step_save_checkpoint (demo_self a m r sv ml) = sv"
  "min_loss (demo_self a m r sv ml) = ml"
  by (simp_all add: demo_self_def)

lemma demo_train:
  "train (demo_collab f sc) (demo_self a m r sv ml) (w, tr)
     = (f w, (Suc w, tr @ [ModelTrain, SetMode ''train'', Sample 1, ZeroGrad, Backward,
                           OptimizerStep]))"
  by (simp add: train_def call_def Let_def demo_collab_def demo_self_def)

lemma demo_validate:
  "validate (demo_collab f sc) (demo_self a m r sv ml) (w, tr)
     = (Inr (sc(''loss'' \<mapsto> PyFloat (np_average [f w, f w]))),
        (w, tr @ [ModelEval, MetricsUpdate]))"
  by (simp add: validate_def evaluate_on_data_def call_def Let_def demo_collab_def
      demo_self_def np_vstack_def)


lemma ou_train:
  "optimizer_updates (snd (snd (train c self s))) = Suc (optimizer_updates (snd s))"
  by (simp add: train_def call_def Let_def optimizer_updates_def)

lemma ou_save:
  "optimizer_updates (snd (save_checkpoint c ck b s)) = optimizer_updates (snd s)"
  by (simp add: save_checkpoint_def call_def Let_def optimizer_updates_def)

lemma ou_validate:
  "optimizer_updates (snd (snd (validate c self s))) = optimizer_updates (snd s)"
  by (simp add: validate_def evaluate_on_data_def call_def Let_def optimizer_updates_def
      split: prod.splits sum.splits)

lemma ou_log:
  "optimizer_updates (snd (snd (log_and_schedule c sc vl s))) = optimizer_updates (snd s)"
  by (simp add: log_and_schedule_def call_def Let_def optimizer_updates_def
      split: option.splits pyval.splits sum.splits)

lemma ou_report:
  "optimizer_updates (snd (snd (report_stats c self step trl ml s))) = optimizer_updates (snd s)"
proof -
  obtain r s1 where v: "validate c self s = (r, s1)" by (cases "validate c self s")
  have s1: "optimizer_updates (snd s1) = optimizer_updates (snd s)"
    using ou_validate [of c self s] v by simp
  show ?thesis
  proof (cases r)
    case (Inl e)
    then show ?thesis using v s1 by (simp add: report_stats_def)
  next
    case (Inr scores)
    show ?thesis
    proof (cases "scores ''loss''")
      case None
      then show ?thesis using v s1 Inr by (simp add: report_stats_def)
    next
      case (Some vloss)
      let ?s2 = "call c (MetricsLog ''train'' [Val (PyFloat trl)]) s1"
      have s2: "optimizer_updates (snd ?s2) = optimizer_updates (snd s)"
        using s1 by (simp add: call_def optimizer_updates_def)
      obtain r3 s3 where l: "log_and_schedule c scores vloss ?s2 = (r3, s3)"
        by (cases "log_and_schedule c scores vloss ?s2")
      have s3: "optimizer_updates (snd s3) = optimizer_updates (snd s)"
        using ou_log [of c scores vloss ?s2] l s2 by simp
      show ?thesis
        using v Inr Some l s3
        by (simp add: report_stats_def Let_def ou_save split: sum.splits pyval.splits)
    qed
  qed
qed

lemma loop_body_history:
  "history (snd (loop_body c self step ls)) = history ls @ [(step, fst (train c self (world ls)))]"
  by (simp add: loop_body_def Let_def split: prod.splits sum.splits if_splits)

lemma loop_body_no_report:
  assumes "train c self (world ls) = (trl, s1)" and "report_due self step = Inr False"
  shows "loop_body c self step ls =
     (let ls2 = ls\<lparr>world := s1, history := history ls @ [(step, trl)]\<rparr> in
      case py_mod step (nth_step_save_checkpoint self) of
        Inl e \<Rightarrow> (Some e, ls2)
      | Inr r \<Rightarrow>
          if r = 0
          then (None, ls2\<lparr>world := save_checkpoint c
                   \<lparr> ck_step = step, ck_state = fst s1, ck_min_loss = min_loss_var ls \<rparr>
                   False s1\<rparr>)
          else (None, ls2))"
  using assms by (simp add: loop_body_def Let_def split: sum.splits)

lemma loop_body_report_error:
  assumes "train c self (world ls) = (trl, s1)" and "report_due self step = Inr True"
    and "report_stats c self step trl (min_loss_var ls) s1 = (Inl e, s2)"
  shows "loop_body c self step ls =
           (Some e, ls\<lparr>world := s2, history := history ls @ [(step, trl)]\<rparr>)"
  using assms by (simp add: loop_body_def Let_def)

lemma loop_body_report_ok:
  assumes "train c self (world ls) = (trl, s1)" and "report_due self step = Inr True"
    and "report_stats c self step trl (min_loss_var ls) s1 = (Inr ml, s2)"
  shows "loop_body c self step ls =
     (let ls2 = ls\<lparr>min_loss_var := ml, world := s2,
                   history := history ls @ [(step, trl)]\<rparr> in
      case py_mod step (nth_step_save_checkpoint self) of
        Inl e \<Rightarrow> (Some e, ls2)
      | Inr r \<Rightarrow>
          if r = 0
          then (None, ls2\<lparr>world := save_checkpoint c
                   \<lparr> ck_step = step, ck_state = fst s2, ck_min_loss = ml \<rparr> False s2\<rparr>)
          else (None, ls2))"
  using assms by (simp add: loop_body_def Let_def split: sum.splits)

lemma loop_body_due_error:
  assumes "train c self (world ls) = (trl, s1)" and "report_due self step = Inl e"
  shows "loop_body c self step ls =
           (Some e, ls\<lparr>world := s1, history := history ls @ [(step, trl)]\<rparr>)"
  using assms by (simp add: loop_body_def Let_def)

lemma loop_body_updates:
  "optimizer_updates (snd (world (snd (loop_body c self step ls))))
     = Suc (optimizer_updates (snd (world ls)))"
proof -
  obtain trl s1 where t: "train c self (world ls) = (trl, s1)"
    by (cases "train c self (world ls)")
  have s1: "optimizer_updates (snd s1) = Suc (optimizer_updates (snd (world ls)))"
    using ou_train [of c self "world ls"] t by simp
  show ?thesis
  proof (cases "report_due self step")
    case (Inl e)
    then show ?thesis using s1 by (simp add: loop_body_due_error [OF t Inl])
  next
    case (Inr due)
    show ?thesis
    proof (cases due)
      case False
      with Inr have d: "report_due self step = Inr False" by simp
      show ?thesis using s1
        by (simp add: loop_body_no_report [OF t d] Let_def ou_save split: sum.splits)
    next
      case True
      with Inr have d: "report_due self step = Inr True" by simp
      obtain res s2 where rr: "report_stats c self step trl (min_loss_var ls) s1 = (res, s2)"
        by (cases "report_stats c self step trl (min_loss_var ls) s1")
      have s2: "optimizer_updates (snd s2) = Suc (optimizer_updates (snd (world ls)))"
        using ou_report [of c self step trl "min_loss_var ls" s1] s1 rr by simp
      show ?thesis
      proof (cases res)
        case (Inl e)
        with rr have "report_stats c self step trl (min_loss_var ls) s1 = (Inl e, s2)" by simp
        then show ?thesis using s2 by (simp add: loop_body_report_error [OF t d])
      next
        case (Inr ml)
        with rr have "report_stats c self step trl (min_loss_var ls) s1 = (Inr ml, s2)" by simp
        then show ?thesis using s2
          by (simp add: loop_body_report_ok [OF t d] Let_def ou_save split: sum.splits)
      qed
    qed
  qed
qed

lemma for_steps_history:
  "for_steps c self steps ls = (None, ls')
     \<Longrightarrow> map fst (history ls') = map fst (history ls) @ steps"
proof (induction steps arbitrary: ls)
  case Nil
  then show ?case by simp
next
  case (Cons step rest)
  obtain r ls1 where b: "loop_body c self step ls = (r, ls1)"
    by (cases "loop_body c self step ls")
  have h: "map fst (history ls1) = map fst (history ls) @ [step]"
    using loop_body_history [of c self step ls] b by simp
  from Cons.prems b have r: "r = None" and f: "for_steps c self rest ls1 = (None, ls')"
    by (auto split: option.splits)
  show ?case using Cons.IH [OF f] h by simp
qed

lemma for_steps_updates:
  "optimizer_updates (snd (world (snd (for_steps c self steps ls)))) + length (history ls)
     = optimizer_updates (snd (world ls))
       + length (history (snd (for_steps c self steps ls)))"
proof (induction steps arbitrary: ls)
  case Nil
  then show ?case by simp
next
  case (Cons step rest)
  obtain r ls1 where b: "loop_body c self step ls = (r, ls1)"
    by (cases "loop_body c self step ls")
  have h: "length (history ls1) = Suc (length (history ls))"
    using loop_body_history [of c self step ls] b by simp
  have u: "optimizer_updates (snd (world ls1)) = Suc (optimizer_updates (snd (world ls)))"
    using loop_body_updates [of c self step ls] b by simp
  show ?case
  proof (cases r)
    case None
    then show ?thesis using b h u Cons.IH [of ls1] by simp
  next
    case (Some e)
    then show ?thesis using b h u by simp
  qed
qed

lemma run_history:
  assumes "fst (train_and_validate c self s) = None"
  shows "map fst (history (snd (train_and_validate c self s)))
           = [start_step self .. max_steps self - 1]"
proof -
  let ?ls0 = "\<lparr> min_loss_var = min_loss self,
                world = call c (SchedulerInit lr_scheduler) s, history = [] \<rparr>"
  let ?steps = "[start_step self .. max_steps self - 1]"
  obtain r ls where f: "for_steps c self ?steps ?ls0 = (r, ls)"
    by (cases "for_steps c self ?steps ?ls0")
  from assms f have r: "r = None"
    by (cases r) (simp_all add: train_and_validate_def Let_def)
  have "map fst (history ls) = ?steps"
    using for_steps_history [of c self ?steps ?ls0 ls] f r by simp
  then show ?thesis using f r by (simp add: train_and_validate_def Let_def)
qed

lemma run_updates:
  "optimizer_updates (snd (world (snd (train_and_validate c self s))))
     = optimizer_updates (snd s) + length (history (snd (train_and_validate c self s)))"
proof -
  let ?s1 = "call c (SchedulerInit lr_scheduler) s"
  let ?ls0 = "\<lparr> min_loss_var = min_loss self, world = ?s1, history = [] \<rparr>"
  let ?steps = "[start_step self .. max_steps self - 1]"
  obtain r ls where f: "for_steps c self ?steps ?ls0 = (r, ls)"
    by (cases "for_steps c self ?steps ?ls0")
  have u0: "optimizer_updates (snd ?s1) = optimizer_updates (snd s)"
    by (simp add: call_def optimizer_updates_def)
  have u: "optimizer_updates (snd (world ls)) = optimizer_updates (snd s) + length (history ls)"
    using for_steps_updates [of c self ?steps ?ls0] f u0 by simp
  show ?thesis
    using f u
    by (cases r) (simp_all add: train_and_validate_def Let_def call_def optimizer_updates_def)
qed

lemma demo_call:
  "call (demo_collab f sc) e (w, tr) = ((case e of OptimizerStep \<Rightarrow> Suc w | _ \<Rightarrow> w), tr @ [e])"
  by (simp add: call_def demo_collab_def)

lemma demo_run_3:
  "train_and_validate (demo_collab (\<lambda>w. Fin (1/2)) [''roc_auc'' \<mapsto> PyNone])
          (demo_self 0 3 2 2 PInf) (0, tr)
   = (None, \<lparr> min_loss_var = Fin (1/2),
        world = (3, tr @ [SchedulerInit lr_scheduler,
           ModelTrain, SetMode ''train'', Sample 1, ZeroGrad, Backward, OptimizerStep,
           TorchSave \<lparr>ck_step = 0, ck_state = 1, ck_min_loss = PInf\<rparr> ''checkpoint.pth.tar'',
           ModelTrain, SetMode ''train'', Sample 1, ZeroGrad, Backward, OptimizerStep,
           ModelTrain, SetMode ''train'', Sample 1, ZeroGrad, Backward, OptimizerStep,
           ModelEval, MetricsUpdate,
           MetricsLog ''train'' [Val (PyFloat (Fin (1/2)))],
           MetricsLog ''validation'' [Val (PyFloat (Fin (1/2))), Lit ''NA''],
           TorchSave \<lparr>ck_step = 2, ck_state = 3, ck_min_loss = Fin (1/2)\<rparr> ''checkpoint.pth.tar'',
           CopyFile ''checkpoint.pth.tar'' ''best_model.pth.tar'',
           TorchSave \<lparr>ck_step = 2, ck_state = 3, ck_min_loss = Fin (1/2)\<rparr> ''checkpoint.pth.tar'',
           SaveDatasetToFile ''train'' True]),
        history = [(0, Fin (1/2)), (1, Fin (1/2)), (2, Fin (1/2))] \<rparr>)"
  by (simp add: train_and_validate_def upto_rec1 [of 0] upto_rec1 [of 1] upto_rec1 [of 2]
      loop_body_def demo_train demo_self_fields report_due_def py_mod_def report_stats_def
      demo_validate log_and_schedule_def save_checkpoint_def demo_call Let_def np_average_def
      py_min_def)

lemma init_fresh:
  "init c cfg None s0 = (Inr (fst (init_setup c cfg s0)), init_loggers c (snd (init_setup c cfg s0)))"
  by (simp add: init_def split: prod.splits)

lemma init_setup_fields:
  "start_step (fst (init_setup c cfg s0)) = 0"
  "max_steps (fst (init_setup c cfg s0)) = max_steps_arg cfg"
  "batch_size (fst (init_setup c cfg s0)) = batch_size_arg cfg"
  "nth_step_report_stats (fst (init_setup c cfg s0)) = report_stats_every_n_steps cfg"
  "nth_step_save_checkpoint (fst (init_setup c cfg s0)) = checkpoint_cadence cfg"
  "min_loss (fst (init_setup c cfg s0)) = PInf"
  "max_step (fst (init_setup c cfg s0)) = None"
  by (simp_all add: init_setup_def Let_def)

lemma init_from_checkpoint:
  "init c cfg (Some checkpoint) s0
     = (Inl AttributeError, call c LoadModelState (call c TorchLoad (snd (init_setup c cfg s0))))"
  by (simp add: init_def init_resume_def init_setup_fields Let_def case_prod_beta)

lemma demo_init:
  "init (demo_collab f sc) (demo_config m r sv) None (w, tr)
     = (Inr (demo_self 0 m r (case sv of None \<Rightarrow> r | Some n \<Rightarrow> if n = 0 then r else n) PInf),
        (w, tr @ [OptimizerInit, SetNumThreads 32, MakeDirs, InitializeLogger,
                  GetValidationSet 1 None, MetricsLoggerOpen ''train'',
                  MetricsLoggerOpen ''validation'', MetricsLog ''train'' [Lit ''loss''],
                  MetricsLog ''validation'' [Lit ''loss'', Lit ''roc_auc'']]))"
  by (simp add: init_def init_setup_def init_loggers_def demo_call Let_def demo_self_def)
     (simp add: demo_collab_def demo_config_def checkpoint_cadence_def split: option.splits)







lemma train_trace:
  "snd (snd (train c self s))
     = snd s @ [ModelTrain, SetMode ''train'', Sample (batch_size self), ZeroGrad, Backward,
                OptimizerStep]"
  by (simp add: train_def call_def Let_def)

lemma validate_err_trace:
  "validate c self s = (Inl e, s1) \<Longrightarrow> snd s1 = snd s @ [ModelEval]"
  by (auto simp: validate_def evaluate_on_data_def call_def Let_def
      split: prod.splits sum.splits)

lemma log_and_schedule_ok_trace:
  assumes "log_and_schedule c scores vloss s = (Inr u, s1)"
  shows "\<exists>vr sched. snd s1 = snd s @ MetricsLog ''validation'' [Val vloss, vr] # sched
           \<and> (sched = [] \<or> (\<exists>v. sched = [SchedulerStep lr_scheduler v]))"
  using assms
  by (auto simp: log_and_schedule_def call_def Let_def
      split: option.splits if_splits pyval.splits sum.splits)

lemma log_and_schedule_err_trace:
  assumes "log_and_schedule c scores vloss s = (Inl e, s1)"
  shows "snd s1 = snd s \<or> (\<exists>vr. snd s1 = snd s @ [MetricsLog ''validation'' [Val vloss, vr]])"
  using assms
  by (auto simp: log_and_schedule_def call_def Let_def
      split: option.splits if_splits pyval.splits sum.splits)

lemma report_stats_ok_trace:
  assumes "report_stats c self step trl ml s = (Inr ml', s2)"
  shows "\<exists>vl vr sched w. ml' = py_min vl ml
           \<and> snd s2 = snd s @ [ModelEval, MetricsUpdate, MetricsLog ''train'' [Val (PyFloat trl)],
                               MetricsLog ''validation'' [Val (PyFloat vl), vr]]
                         @ sched
                         @ [TorchSave \<lparr>ck_step = step, ck_state = w, ck_min_loss = py_min vl ml\<rparr>
                              ''checkpoint.pth.tar'']
                         @ (if pf_lt vl ml
                            then [CopyFile ''checkpoint.pth.tar'' ''best_model.pth.tar'']
                            else [])
           \<and> (sched = [] \<or> (\<exists>v. sched = [SchedulerStep lr_scheduler v]))"
proof -
  obtain r s1 where v: "validate c self s = (r, s1)" by (cases "validate c self s")
  from assms v obtain scores where r: "r = Inr scores"
    by (cases r) (simp_all add: report_stats_def)
  have t1: "snd s1 = snd s @ [ModelEval, MetricsUpdate]"
    using validate_ok_trace v r by blast
  obtain vl where vl: "scores ''loss'' = Some (PyFloat vl)"
    using validate_loss v r by blast
  let ?s2 = "call c (MetricsLog ''train'' [Val (PyFloat trl)]) s1"
  obtain r3 s3 where l: "log_and_schedule c scores (PyFloat vl) ?s2 = (r3, s3)"
    by (cases "log_and_schedule c scores (PyFloat vl) ?s2")
  from assms v r vl l have r3: "r3 = Inr ()"
    by (cases r3) (simp_all add: report_stats_def Let_def)
  obtain vr sched where t3: "snd s3 = snd ?s2 @ MetricsLog ''validation'' [Val (PyFloat vl), vr] # sched"
    and sh: "sched = [] \<or> (\<exists>v. sched = [SchedulerStep lr_scheduler v])"
    using log_and_schedule_ok_trace l r3 by blast
  from assms v r vl l r3
  have ml': "ml' = py_min vl ml"
    and s2: "s2 = save_checkpoint c \<lparr>ck_step = step, ck_state = fst s3,
                     ck_min_loss = py_min vl ml\<rparr> (pf_lt vl ml) s3"
    by (auto simp: report_stats_def Let_def)
  have "snd s2 = snd s @ [ModelEval, MetricsUpdate, MetricsLog ''train'' [Val (PyFloat trl)],
                               MetricsLog ''validation'' [Val (PyFloat vl), vr]]
                         @ sched
                         @ [TorchSave \<lparr>ck_step = step, ck_state = fst s3, ck_min_loss = py_min vl ml\<rparr>
                              ''checkpoint.pth.tar'']
                         @ (if pf_lt vl ml
                            then [CopyFile ''checkpoint.pth.tar'' ''best_model.pth.tar'']
                            else [])"
    by (simp add: s2 save_checkpoint_def call_def Let_def t3 t1)
  with ml' sh show ?thesis by blast
qed

lemma report_stats_err_trace:
  assumes "report_stats c self step trl ml s = (Inl e, s2)"
  shows "\<exists>lg. snd s2 = snd s @ lg
           \<and> (\<forall>x \<in> set lg. x = ModelEval \<or> x = MetricsUpdate \<or> (\<exists>n cells. x = MetricsLog n cells))"
proof -
  obtain r s1 where v: "validate c self s = (r, s1)" by (cases "validate c self s")
  show ?thesis
  proof (cases r)
    case (Inl e')
    then have "snd s1 = snd s @ [ModelEval]" using validate_err_trace v by blast
    moreover have "s2 = s1" using assms v Inl by (simp add: report_stats_def)
    ultimately show ?thesis by simp
  next
    case (Inr scores)
    have t1: "snd s1 = snd s @ [ModelEval, MetricsUpdate]"
      using validate_ok_trace v Inr by blast
    obtain vl where vl: "scores ''loss'' = Some (PyFloat vl)"
      using validate_loss v Inr by blast
    let ?s2 = "call c (MetricsLog ''train'' [Val (PyFloat trl)]) s1"
    obtain r3 s3 where l: "log_and_schedule c scores (PyFloat vl) ?s2 = (r3, s3)"
      by (cases "log_and_schedule c scores (PyFloat vl) ?s2")
    from assms v Inr vl l obtain e3 where r3: "r3 = Inl e3" and s2: "s2 = s3"
      by (cases r3) (simp_all add: report_stats_def Let_def)
    have "snd s3 = snd ?s2 \<or> (\<exists>vr. snd s3 = snd ?s2 @ [MetricsLog ''validation'' [Val (PyFloat vl), vr]])"
      using log_and_schedule_err_trace l r3 by blast
    then show ?thesis using s2 t1 by (auto simp: call_def)
  qed
qed

lemma loop_body_trace:
  "\<exists>more. snd (world (snd (loop_body c self step ls))) = snd (world ls) @ ModelTrain # more"
proof -
  obtain trl s1 where t: "train c self (world ls) = (trl, s1)"
    by (cases "train c self (world ls)")
  have s1: "snd s1 = snd (world ls) @ [ModelTrain, SetMode ''train'', Sample (batch_size self),
                                       ZeroGrad, Backward, OptimizerStep]"
    using train_trace [of c self "world ls"] t by simp
  show ?thesis
  proof (cases "report_due self step")
    case (Inl e)
    then show ?thesis using s1 by (simp add: loop_body_due_error [OF t Inl])
  next
    case (Inr due)
    show ?thesis
    proof (cases due)
      case False
      with Inr have d: "report_due self step = Inr False" by simp
      show ?thesis using s1
        by (simp add: loop_body_no_report [OF t d] Let_def save_checkpoint_def call_def
            split: sum.splits)
    next
      case True
      with Inr have d: "report_due self step = Inr True" by simp
      obtain res s2 where rr: "report_stats c self step trl (min_loss_var ls) s1 = (res, s2)"
        by (cases "report_stats c self step trl (min_loss_var ls) s1")
      show ?thesis
      proof (cases res)
        case (Inl e)
        with rr have e: "report_stats c self step trl (min_loss_var ls) s1 = (Inl e, s2)" by simp
        obtain lg where "snd s2 = snd s1 @ lg" using report_stats_err_trace [OF e] by blast
        then show ?thesis using s1 by (simp add: loop_body_report_error [OF t d e])
      next
        case (Inr ml)
        with rr have e: "report_stats c self step trl (min_loss_var ls) s1 = (Inr ml, s2)" by simp
        obtain lg where "snd s2 = snd s1 @ lg" using report_stats_ok_trace [OF e] by blast
        then show ?thesis using s1
          by (simp add: loop_body_report_ok [OF t d e] Let_def save_checkpoint_def call_def
              split: sum.splits)
      qed
    qed
  qed
qed

lemma for_steps_trace:
  "\<exists>more. snd (world (snd (for_steps c self steps ls))) = snd (world ls) @ more
      \<and> (\<forall>src dst. take 1 more \<noteq> [CopyFile src dst])"
proof (induction steps arbitrary: ls)
  case Nil
  then show ?case by simp
next
  case (Cons step rest)
  obtain r ls1 where b: "loop_body c self step ls = (r, ls1)"
    by (cases "loop_body c self step ls")
  obtain more where m: "snd (world ls1) = snd (world ls) @ ModelTrain # more"
    using loop_body_trace [of c self step ls] b by auto
  show ?case
  proof (cases r)
    case (Some e)
    then show ?thesis using b m by simp
  next
    case None
    obtain more' where "snd (world (snd (for_steps c self rest ls1))) = snd (world ls1) @ more'"
      using Cons.IH [of ls1] by blast
    then show ?thesis using b m None by simp
  qed
qed

lemma marks_append: "marks (a @ b) = marks a @ marks b"
  by (simp add: marks_def)

lemma marks_train:
  "marks (snd (snd (train c self s))) = marks (snd s) @ [Update]"
  by (simp add: train_trace marks_def)

lemma step_quiet:
  assumes "report_due self step = Inr False"
    and "py_mod step (nth_step_save_checkpoint self) = Inr r" and "r \<noteq> 0"
  shows "\<exists>ls'. loop_body c self step ls = (None, ls')
           \<and> marks (snd (world ls')) = marks (snd (world ls)) @ [Update]"
proof -
  obtain trl s1 where t: "train c self (world ls) = (trl, s1)"
    by (cases "train c self (world ls)")
  have "marks (snd s1) = marks (snd (world ls)) @ [Update]"
    using marks_train [of c self "world ls"] t by simp
  then show ?thesis
    using assms by (simp add: loop_body_no_report [OF t assms(1)] Let_def)
qed

lemma step_save_only:
  assumes "report_due self step = Inr False"
    and "py_mod step (nth_step_save_checkpoint self) = Inr 0"
  shows "\<exists>ls'. loop_body c self step ls = (None, ls')
           \<and> marks (snd (world ls')) = marks (snd (world ls)) @ [Update, Save step]"
proof -
  obtain trl s1 where t: "train c self (world ls) = (trl, s1)"
    by (cases "train c self (world ls)")
  have "marks (snd s1) = marks (snd (world ls)) @ [Update]"
    using marks_train [of c self "world ls"] t by simp
  then show ?thesis
    using assms
    by (simp add: loop_body_no_report [OF t assms(1)] Let_def save_checkpoint_def call_def
        marks_def)
qed

lemma step_report_and_save:
  assumes "report_due self step = Inr True"
    and "py_mod step (nth_step_save_checkpoint self) = Inr 0"
    and "loop_body c self step ls = (None, ls')"
  shows "\<exists>best. marks (snd (world ls'))
           = marks (snd (world ls))
               @ [Update, Evaluation, TrainLine, ValidationLine, Save step] @ best
               @ [Save step]
         \<and> (best = [] \<or> best = [BestCopy])"
proof -
  obtain trl s1 where t: "train c self (world ls) = (trl, s1)"
    by (cases "train c self (world ls)")
  have m1: "marks (snd s1) = marks (snd (world ls)) @ [Update]"
    using marks_train [of c self "world ls"] t by simp
  obtain res s2 where rr: "report_stats c self step trl (min_loss_var ls) s1 = (res, s2)"
    by (cases "report_stats c self step trl (min_loss_var ls) s1")
  show ?thesis
  proof (cases res)
    case (Inl e)
    with rr have e: "report_stats c self step trl (min_loss_var ls) s1 = (Inl e, s2)" by simp
    show ?thesis using assms(3) by (simp add: loop_body_report_error [OF t assms(1) e])
  next
    case (Inr ml)
    with rr have e: "report_stats c self step trl (min_loss_var ls) s1 = (Inr ml, s2)" by simp
    obtain vl vr sched w where tr: "snd s2 = snd s1 @ [ModelEval, MetricsUpdate,
                               MetricsLog ''train'' [Val (PyFloat trl)],
                               MetricsLog ''validation'' [Val (PyFloat vl), vr]]
                         @ sched
                         @ [TorchSave \<lparr>ck_step = step, ck_state = w,
                                       ck_min_loss = py_min vl (min_loss_var ls)\<rparr>
                              ''checkpoint.pth.tar'']
                         @ (if pf_lt vl (min_loss_var ls)
                            then [CopyFile ''checkpoint.pth.tar'' ''best_model.pth.tar'']
                            else [])"
      and sh: "sched = [] \<or> (\<exists>v. sched = [SchedulerStep lr_scheduler v])"
      using report_stats_ok_trace [OF e] by blast
    have ms: "marks sched = []" using sh by (auto simp: marks_def)
    have m2: "marks (snd s2) = marks (snd s1)
                @ [Evaluation, TrainLine, ValidationLine, Save step]
                @ (if pf_lt vl (min_loss_var ls) then [BestCopy] else [])"
      unfolding tr marks_append ms by (simp add: marks_def)
    have "world ls' = save_checkpoint c
                   \<lparr> ck_step = step, ck_state = fst s2, ck_min_loss = ml \<rparr> False s2"
      using assms(2,3) by (auto simp: loop_body_report_ok [OF t assms(1) e] Let_def)
    then have "marks (snd (world ls'))
           = marks (snd (world ls))
               @ [Update, Evaluation, TrainLine, ValidationLine, Save step]
               @ (if pf_lt vl (min_loss_var ls) then [BestCopy] else [])
               @ [Save step]"
      using m1 m2 by (simp add: save_checkpoint_def call_def marks_def)
    then show ?thesis by (cases "pf_lt vl (min_loss_var ls)") auto
  qed
qed

lemma for_steps_append:
  "for_steps c self (a @ b) ls
     = (case for_steps c self a ls of
          (Some e, ls') \<Rightarrow> (Some e, ls')
        | (None, ls') \<Rightarrow> for_steps c self b ls')"
  by (induction a arbitrary: ls) (auto split: prod.splits option.splits)

lemma for_steps_quiet:
  assumes "\<forall>step \<in> set steps. report_due self step = Inr False
             \<and> (\<exists>r. py_mod step (nth_step_save_checkpoint self) = Inr r \<and> r \<noteq> 0)"
  shows "\<exists>ls'. for_steps c self steps ls = (None, ls')
           \<and> marks (snd (world ls')) = marks (snd (world ls)) @ replicate (length steps) Update"
  using assms
proof (induction steps arbitrary: ls)
  case Nil
  then show ?case by simp
next
  case (Cons step rest)
  from Cons.prems obtain r where d: "report_due self step = Inr False"
    and p: "py_mod step (nth_step_save_checkpoint self) = Inr r" and r: "r \<noteq> 0"
    by auto
  obtain ls1 where b: "loop_body c self step ls = (None, ls1)"
    and m: "marks (snd (world ls1)) = marks (snd (world ls)) @ [Update]"
    using step_quiet [OF d p r] by blast
  from Cons.prems have "\<forall>step \<in> set rest. report_due self step = Inr False
             \<and> (\<exists>r. py_mod step (nth_step_save_checkpoint self) = Inr r \<and> r \<noteq> 0)"
    by simp
  from Cons.IH [OF this, of ls1] obtain ls' where
    "for_steps c self rest ls1 = (None, ls')"
    "marks (snd (world ls')) = marks (snd (world ls1)) @ replicate (length rest) Update"
    by blast
  then show ?case using b m by (simp add: replicate_app_Cons_same)
qed

lemma upto_0_9: "[0 .. 9 :: int] = [0] @ [1, 2, 3, 4] @ [5] @ [6, 7, 8, 9]"
  by (simp add: upto_rec1 [of 0] upto_rec1 [of 1] upto_rec1 [of 2] upto_rec1 [of 3]
      upto_rec1 [of 4] upto_rec1 [of 5] upto_rec1 [of 6] upto_rec1 [of 7] upto_rec1 [of 8]
      upto_rec1 [of 9])

lemma demo_run_10:
  "fst (train_and_validate (demo_collab (\<lambda>w. Fin (1/2)) [''roc_auc'' \<mapsto> PyNone])
          (demo_self 0 10 5 5 PInf) (0, tr)) = None"
  by (simp add: train_and_validate_def upto_0_9 loop_body_def demo_train demo_self_fields
      report_due_def py_mod_def report_stats_def demo_validate log_and_schedule_def
      save_checkpoint_def demo_call Let_def np_average_def py_min_def)


lemma pf_lt_trans: "pf_lt a b \<Longrightarrow> pf_lt b c \<Longrightarrow> pf_lt a c"
  by (cases a; cases b; cases c) simp_all

lemma pf_lt_asym: "pf_lt a b \<Longrightarrow> \<not> pf_lt b a"
  by (cases a; cases b) simp_all

lemma pf_lt_not_NaN: "pf_lt a b \<Longrightarrow> a \<noteq> NaN \<and> b \<noteq> NaN"
  by (cases a; cases b) simp_all

lemma py_min_less: "pf_lt vl ml \<Longrightarrow> py_min vl ml = vl"
  by (simp add: py_min_def pf_lt_asym)

lemma py_min_not_less:
  "\<not> pf_lt vl ml \<Longrightarrow> vl \<noteq> NaN \<Longrightarrow> ml \<noteq> NaN \<Longrightarrow> py_min vl ml = ml"
  by (cases vl; cases ml) (simp_all add: py_min_def)

lemma bsw_append:
  "\<exists>files'. best_slot_writes files (a @ b) = best_slot_writes files a @ best_slot_writes files' b"
proof (induction a arbitrary: files)
  case Nil
  show ?case by (rule exI [of _ files]) simp
next
  case (Cons e a)
  show ?case
  proof (cases e)
    case (TorchSave ck p)
    obtain files' where "best_slot_writes (files(p \<mapsto> ck)) (a @ b)
        = best_slot_writes (files(p \<mapsto> ck)) a @ best_slot_writes files' b"
      using Cons.IH by blast
    then show ?thesis using TorchSave by auto
  next
    case (CopyFile src dst)
    show ?thesis
    proof (cases "files src")
      case None
      obtain files' where "best_slot_writes files (a @ b)
          = best_slot_writes files a @ best_slot_writes files' b"
        using Cons.IH by blast
      then show ?thesis using CopyFile None by auto
    next
      case (Some ck)
      obtain files' where "best_slot_writes (files(dst \<mapsto> ck)) (a @ b)
          = best_slot_writes (files(dst \<mapsto> ck)) a @ best_slot_writes files' b"
        using Cons.IH by blast
      then show ?thesis using CopyFile Some by auto
    qed
  qed (use Cons.IH [of files] in auto)
qed

lemma bsw_plain:
  "\<forall>x \<in> set lg. x = ModelEval \<or> x = MetricsUpdate \<or> (\<exists>n cells. x = MetricsLog n cells)
     \<Longrightarrow> best_slot_writes files lg = []"
  by (induction lg) auto

lemma ovl_append:
  "observed_validation_losses (a @ b)
     = observed_validation_losses a @ observed_validation_losses b"
  by (simp add: observed_validation_losses_def)

lemma bsw_report:
  assumes "sched = [] \<or> (\<exists>v. sched = [SchedulerStep sch v])"
  shows "best_slot_writes files
           ([ModelTrain, SetMode m, Sample n, ZeroGrad, Backward, OptimizerStep]
            @ [ModelEval, MetricsUpdate, MetricsLog a cs, MetricsLog b ds] @ sched
            @ [TorchSave ck ''checkpoint.pth.tar'']
            @ (if best then [CopyFile ''checkpoint.pth.tar'' ''best_model.pth.tar''] else [])
            @ (if again then [TorchSave ck' ''checkpoint.pth.tar''] else []))
         = (if best then [ck] else [])"
  using assms by auto

lemma ovl_report:
  assumes "sched = [] \<or> (\<exists>v. sched = [SchedulerStep sch v])"
  shows "observed_validation_losses
           ([ModelTrain, SetMode m, Sample n, ZeroGrad, Backward, OptimizerStep]
            @ [ModelEval, MetricsUpdate, MetricsLog ''train'' [Val (PyFloat trl)],
               MetricsLog ''validation'' [Val (PyFloat vl), vr]] @ sched
            @ [TorchSave ck ''checkpoint.pth.tar'']
            @ (if best then [CopyFile ''checkpoint.pth.tar'' ''best_model.pth.tar''] else [])
            @ (if again then [TorchSave ck' ''checkpoint.pth.tar''] else []))
         = [vl]"
  using assms by (auto simp: observed_validation_losses_def)

lemma loop_body_best:
  "\<exists>added. snd (world (snd (loop_body c self step ls))) = snd (world ls) @ added
     \<and> (((\<forall>files. best_slot_writes files added = [])
           \<and> (min_loss_var (snd (loop_body c self step ls)) = min_loss_var ls
                \<or> (\<exists>vl \<in> set (observed_validation_losses added).
                      \<not> pf_lt vl (min_loss_var ls)
                      \<and> min_loss_var (snd (loop_body c self step ls))
                          = py_min vl (min_loss_var ls))))
         \<or> (\<exists>vl w. vl \<in> set (observed_validation_losses added)
               \<and> pf_lt vl (min_loss_var ls)
               \<and> min_loss_var (snd (loop_body c self step ls)) = vl
               \<and> (\<forall>files. best_slot_writes files added
                     = [\<lparr>ck_step = step, ck_state = w, ck_min_loss = vl\<rparr>])))"
proof -
  obtain trl s1 where t: "train c self (world ls) = (trl, s1)"
    by (cases "train c self (world ls)")
  let ?tr = "[ModelTrain, SetMode ''train'', Sample (batch_size self), ZeroGrad, Backward,
              OptimizerStep] :: 'a event list"
  have s1: "snd s1 = snd (world ls) @ ?tr"
    using train_trace [of c self "world ls"] t by simp
  have plain: "\<forall>files. best_slot_writes files ?tr = []" by simp
  show ?thesis
  proof (cases "report_due self step")
    case (Inl e)
    show ?thesis
      using s1 plain by (simp add: loop_body_due_error [OF t Inl])
  next
    case (Inr due)
    show ?thesis
    proof (cases due)
      case False
      with Inr have d: "report_due self step = Inr False" by simp
      have "\<forall>files. best_slot_writes files (?tr @ [TorchSave ck ''checkpoint.pth.tar'']) = []"
        for ck :: "'a checkpoint"
        by simp
      then show ?thesis
        using s1 plain
        by (cases "py_mod step (nth_step_save_checkpoint self)")
           (simp_all add: loop_body_no_report [OF t d] Let_def save_checkpoint_def call_def)
    next
      case True
      with Inr have d: "report_due self step = Inr True" by simp
      obtain res s2 where rr: "report_stats c self step trl (min_loss_var ls) s1 = (res, s2)"
        by (cases "report_stats c self step trl (min_loss_var ls) s1")
      show ?thesis
      proof (cases res)
        case (Inl e)
        with rr have e: "report_stats c self step trl (min_loss_var ls) s1 = (Inl e, s2)" by simp
        obtain lg where lg: "snd s2 = snd s1 @ lg"
          and pl: "\<forall>x \<in> set lg. x = ModelEval \<or> x = MetricsUpdate
                     \<or> (\<exists>n cells. x = MetricsLog n cells)"
          using report_stats_err_trace [OF e] by blast
        have "\<forall>x \<in> set (?tr @ lg). x = ModelEval \<or> x = MetricsUpdate
                     \<or> (\<exists>n cells. x = MetricsLog n cells) \<or> x \<in> set ?tr"
          using pl by auto
        have b: "\<forall>files. best_slot_writes files (?tr @ lg) = []"
          using bsw_plain [OF pl] by simp
        have "snd (world (snd (loop_body c self step ls))) = snd (world ls) @ (?tr @ lg)"
          and "min_loss_var (snd (loop_body c self step ls)) = min_loss_var ls"
          using s1 lg by (simp_all add: loop_body_report_error [OF t d e])
        then show ?thesis using b by blast
      next
        case (Inr ml)
        with rr have e: "report_stats c self step trl (min_loss_var ls) s1 = (Inr ml, s2)" by simp
        obtain vl vr sched w where ml: "ml = py_min vl (min_loss_var ls)"
          and tr: "snd s2 = snd s1 @ [ModelEval, MetricsUpdate,
                               MetricsLog ''train'' [Val (PyFloat trl)],
                               MetricsLog ''validation'' [Val (PyFloat vl), vr]]
                         @ sched
                         @ [TorchSave \<lparr>ck_step = step, ck_state = w,
                                       ck_min_loss = py_min vl (min_loss_var ls)\<rparr>
                              ''checkpoint.pth.tar'']
                         @ (if pf_lt vl (min_loss_var ls)
                            then [CopyFile ''checkpoint.pth.tar'' ''best_model.pth.tar'']
                            else [])"
          and sh: "sched = [] \<or> (\<exists>v. sched = [SchedulerStep lr_scheduler v])"
          using report_stats_ok_trace [OF e] by blast
        define again where
          "again = (case py_mod step (nth_step_save_checkpoint self) of
                      Inl e \<Rightarrow> False | Inr r \<Rightarrow> r = 0)"
        define ck' where "ck' = \<lparr>ck_step = step, ck_state = fst s2, ck_min_loss = ml\<rparr>"
        define ck where "ck = \<lparr>ck_step = step, ck_state = w,
                                ck_min_loss = py_min vl (min_loss_var ls)\<rparr>"
        define added where "added = ?tr
            @ [ModelEval, MetricsUpdate, MetricsLog ''train'' [Val (PyFloat trl)],
               MetricsLog ''validation'' [Val (PyFloat vl), vr]] @ sched
            @ [TorchSave ck ''checkpoint.pth.tar'']
            @ (if pf_lt vl (min_loss_var ls)
               then [CopyFile ''checkpoint.pth.tar'' ''best_model.pth.tar''] else [])
            @ (if again then [TorchSave ck' ''checkpoint.pth.tar''] else [])"
        have w': "snd (world (snd (loop_body c self step ls))) = snd (world ls) @ added"
          and m': "min_loss_var (snd (loop_body c self step ls)) = py_min vl (min_loss_var ls)"
          using s1 tr ml
          by (cases "py_mod step (nth_step_save_checkpoint self)";
              simp add: loop_body_report_ok [OF t d e] Let_def save_checkpoint_def call_def
                added_def again_def ck_def ck'_def)+
        have b: "best_slot_writes files added = (if pf_lt vl (min_loss_var ls) then [ck] else [])"
          for files
          unfolding added_def by (rule bsw_report [OF sh])
        have o: "observed_validation_losses added = [vl]"
          unfolding added_def by (rule ovl_report [OF sh])
        show ?thesis
        proof (cases "pf_lt vl (min_loss_var ls)")
          case True
          have "ck = \<lparr>ck_step = step, ck_state = w, ck_min_loss = vl\<rparr>"
            using True by (simp add: ck_def py_min_less)
          then show ?thesis
            using w' m' b o True by (auto simp: py_min_less)
        next
          case False
          then show ?thesis
            using w' m' b o by auto
        qed
      qed
    qed
  qed
qed

lemma for_steps_best:
  "\<exists>added. snd (world (snd (for_steps c self steps ls))) = snd (world ls) @ added
     \<and> (min_loss_var ls \<noteq> NaN \<longrightarrow> NaN \<notin> set (observed_validation_losses added) \<longrightarrow>
          (\<forall>files. sorted_wrt (\<lambda>a b. pf_lt b a)
                      (min_loss_var ls # map ck_min_loss (best_slot_writes files added))))"
proof (induction steps arbitrary: ls)
  case Nil
  show ?case by simp
next
  case (Cons step rest)
  obtain r ls1 where b: "loop_body c self step ls = (r, ls1)"
    by (cases "loop_body c self step ls")
  obtain a1 where t1: "snd (world ls1) = snd (world ls) @ a1"
    and c1: "((\<forall>files. best_slot_writes files a1 = [])
           \<and> (min_loss_var ls1 = min_loss_var ls
                \<or> (\<exists>vl \<in> set (observed_validation_losses a1).
                      \<not> pf_lt vl (min_loss_var ls)
                      \<and> min_loss_var ls1 = py_min vl (min_loss_var ls))))
         \<or> (\<exists>vl w. vl \<in> set (observed_validation_losses a1)
               \<and> pf_lt vl (min_loss_var ls)
               \<and> min_loss_var ls1 = vl
               \<and> (\<forall>files. best_slot_writes files a1
                     = [\<lparr>ck_step = step, ck_state = w, ck_min_loss = vl\<rparr>]))"
    using loop_body_best [of c self step ls] b by auto
  have single: "min_loss_var ls \<noteq> NaN \<Longrightarrow> NaN \<notin> set (observed_validation_losses a1) \<Longrightarrow>
      sorted_wrt (\<lambda>a b. pf_lt b a) (min_loss_var ls # map ck_min_loss (best_slot_writes files a1))"
    for files
    using c1 by auto
  show ?case
  proof (cases r)
    case (Some e)
    then have "snd (for_steps c self (step # rest) ls) = ls1" using b by simp
    then show ?thesis using t1 single by auto
  next
    case None
    then have fs: "for_steps c self (step # rest) ls = for_steps c self rest ls1"
      using b by simp
    obtain a2 where t2: "snd (world (snd (for_steps c self rest ls1))) = snd (world ls1) @ a2"
      and c2: "min_loss_var ls1 \<noteq> NaN \<longrightarrow> NaN \<notin> set (observed_validation_losses a2) \<longrightarrow>
          (\<forall>files. sorted_wrt (\<lambda>a b. pf_lt b a)
                      (min_loss_var ls1 # map ck_min_loss (best_slot_writes files a2)))"
      using Cons.IH [of ls1] by blast
    have main: "sorted_wrt (\<lambda>a b. pf_lt b a)
                  (min_loss_var ls # map ck_min_loss (best_slot_writes files (a1 @ a2)))"
      if n0: "min_loss_var ls \<noteq> NaN"
        and no: "NaN \<notin> set (observed_validation_losses (a1 @ a2))" for files
    proof -
      from no have no1: "NaN \<notin> set (observed_validation_losses a1)"
        and no2: "NaN \<notin> set (observed_validation_losses a2)"
        by (simp_all add: ovl_append)
      obtain files' where ap: "best_slot_writes files (a1 @ a2)
          = best_slot_writes files a1 @ best_slot_writes files' a2"
        using bsw_append by blast
      from c1 show ?thesis
      proof (elim disjE conjE exE)
        assume e1: "\<forall>files. best_slot_writes files a1 = []"
          and "min_loss_var ls1 = min_loss_var ls"
        then show ?thesis using c2 n0 no2 ap by simp
      next
        assume e1: "\<forall>files. best_slot_writes files a1 = []"
          and "\<exists>vl \<in> set (observed_validation_losses a1).
                      \<not> pf_lt vl (min_loss_var ls)
                      \<and> min_loss_var ls1 = py_min vl (min_loss_var ls)"
        then obtain vl where "vl \<in> set (observed_validation_losses a1)"
          and "\<not> pf_lt vl (min_loss_var ls)"
          and m: "min_loss_var ls1 = py_min vl (min_loss_var ls)"
          by blast
        then have "min_loss_var ls1 = min_loss_var ls"
          using no1 n0 py_min_not_less [of vl "min_loss_var ls"] by metis
        then show ?thesis using c2 n0 no2 ap e1 by simp
      next
        fix vl w
        assume v: "vl \<in> set (observed_validation_losses a1)"
          and lt: "pf_lt vl (min_loss_var ls)"
          and m: "min_loss_var ls1 = vl"
          and e1: "\<forall>files. best_slot_writes files a1
                     = [\<lparr>ck_step = step, ck_state = w, ck_min_loss = vl\<rparr>]"
        have "vl \<noteq> NaN" using lt pf_lt_not_NaN by blast
        then have s2: "sorted_wrt (\<lambda>a b. pf_lt b a)
                         (vl # map ck_min_loss (best_slot_writes files' a2))"
          using c2 m no2 by simp
        then have "\<forall>x \<in> set (map ck_min_loss (best_slot_writes files' a2)). pf_lt x vl"
          by simp
        then have "\<forall>x \<in> set (map ck_min_loss (best_slot_writes files' a2)).
                     pf_lt x (min_loss_var ls)"
          using lt pf_lt_trans by blast
        then show ?thesis using s2 lt ap e1 by simp
      qed
    qed
    show ?thesis
      unfolding fs using t1 t2 main by (intro exI [of _ "a1 @ a2"]) simp
  qed
qed

lemma run_best:
  "\<exists>added tail. snd (world (snd (train_and_validate c self s)))
        = snd s @ SchedulerInit lr_scheduler # added @ tail
     \<and> (tail = [] \<or> tail = [SaveDatasetToFile ''train'' True])
     \<and> (min_loss self \<noteq> NaN \<longrightarrow> NaN \<notin> set (observed_validation_losses added) \<longrightarrow>
          (\<forall>files. sorted_wrt (\<lambda>a b. pf_lt b a)
                      (min_loss self # map ck_min_loss (best_slot_writes files added))))"
proof -
  let ?ls0 = "\<lparr> min_loss_var = min_loss self,
                world = call c (SchedulerInit lr_scheduler) s, history = [] \<rparr>"
  let ?steps = "[start_step self .. max_steps self - 1]"
  obtain r ls where f: "for_steps c self ?steps ?ls0 = (r, ls)"
    by (cases "for_steps c self ?steps ?ls0")
  obtain added where t: "snd (world ls) = snd (world ?ls0) @ added"
    and m: "min_loss_var ?ls0 \<noteq> NaN \<longrightarrow> NaN \<notin> set (observed_validation_losses added) \<longrightarrow>
          (\<forall>files. sorted_wrt (\<lambda>a b. pf_lt b a)
                      (min_loss_var ?ls0 # map ck_min_loss (best_slot_writes files added)))"
    using for_steps_best [of c self ?steps ?ls0] f by auto
  have "snd (world (snd (train_and_validate c self s)))
          = snd s @ SchedulerInit lr_scheduler # added
              @ (case r of None \<Rightarrow> [SaveDatasetToFile ''train'' True] | Some e \<Rightarrow> [])"
    using f t by (cases r) (simp_all add: train_and_validate_def Let_def call_def)
  moreover have "(case r of None \<Rightarrow> [SaveDatasetToFile ''train'' True] | Some e \<Rightarrow> []) = []
      \<or> (case r of None \<Rightarrow> [SaveDatasetToFile ''train'' True] | Some e \<Rightarrow> [])
          = [SaveDatasetToFile ''train'' True :: 'a event]"
    by (cases r) simp_all
  ultimately show ?thesis using m by (simp del: sorted_wrt.simps) blast
qed

lemma bsw_run_shape:
  assumes "tail = [] \<or> tail = [SaveDatasetToFile ''train'' True]"
  shows "best_slot_writes files (SchedulerInit sch # added @ tail) = best_slot_writes files added"
proof -
  obtain files' where "best_slot_writes files (added @ tail)
      = best_slot_writes files added @ best_slot_writes files' tail"
    using bsw_append by blast
  moreover have "best_slot_writes files' tail = []" using assms by auto
  ultimately show ?thesis by simp
qed

lemma ovl_run_shape:
  assumes "tail = [] \<or> tail = [SaveDatasetToFile ''train'' True]"
  shows "observed_validation_losses (SchedulerInit sch # added @ tail)
           = observed_validation_losses added"
  using assms by (auto simp: observed_validation_losses_def)

lemma demo_report:
  "report_stats (demo_collab (\<lambda>w. Fin (1/2)) [''roc_auc'' \<mapsto> PyNone]) (demo_self 0 3 2 2 PInf)
       2 (Fin (1/2)) PInf (3, [])
     = (Inr (Fin (1/2)),
        (3, [ModelEval, MetricsUpdate, MetricsLog ''train'' [Val (PyFloat (Fin (1/2)))],
             MetricsLog ''validation'' [Val (PyFloat (Fin (1/2))), Lit ''NA''],
             TorchSave \<lparr>ck_step = 2, ck_state = 3, ck_min_loss = Fin (1/2)\<rparr>
               ''checkpoint.pth.tar'',
             CopyFile ''checkpoint.pth.tar'' ''best_model.pth.tar'']))"
  by (simp add: report_stats_def demo_validate log_and_schedule_def save_checkpoint_def
      demo_call Let_def np_average_def py_min_def)

text \<open>Rounding to a float, evaluated at the values used below.\<close>

lemma binade_eqI:
  assumes "2 powr real_of_int k \<le> \<bar>x\<bar>" and "\<bar>x\<bar> < 2 powr real_of_int (k + 1)"
  shows "binade x = k"
proof -
  have pos: "0 < \<bar>x\<bar>"
    using assms(1) by (smt (verit) powr_gt_zero)
  have "real_of_int k \<le> log 2 \<bar>x\<bar>"
    using assms(1) pos by (simp add: le_log_iff)
  moreover have "log 2 \<bar>x\<bar> < real_of_int (k + 1)"
    using assms(2) pos by (simp add: log_less_iff)
  ultimately show ?thesis
    unfolding binade_def by (simp add: floor_eq_iff)
qed

lemma binade_500: "binade (128125 / 256) = 8"
  by (rule binade_eqI) simp_all

lemma binade_501: "binade 501 = 8"
  by (rule binade_eqI) simp_all

lemma binade_half: "binade (501 / 1000) = - 1"
  by (rule binade_eqI) simp_all

lemma binade_half': "binade (1 / 2) = - 1"
  by (rule binade_eqI) simp_all

lemma fl_product: "fl (128125 / 256) = Fin (128125 / 256)"
  by (simp add: fl_def binade_500 round_half_even_def Let_def powr_neg_numeral)

lemma fl_501: "fl 501 = Fin 501"
  by (simp add: fl_def binade_501 round_half_even_def Let_def powr_neg_numeral)

lemma fl_quotient: "fl (501 / 1000) = Fin (4512606826625237 / 9007199254740992)"
  by (simp add: fl_def binade_half round_half_even_def Let_def powr_neg_numeral)

lemma fl_half: "fl (1 / 2) = Fin (1 / 2)"
  using binade_half' by (simp add: fl_def round_half_even_def Let_def powr_neg_numeral)


text \<open>
  Two more floats. For the float 0.9 the exact product with 1000 lies above 900, but the
  float product is 900, so that the value computed from it is the float 0.9 again. For
  the float \<open>1e306\<close> the float product is an infinity.
\<close>

lemma binade_900: "binade (1013309916158361625 / 1125899906842624) = 9"
  by (rule binade_eqI) simp_all

lemma binade_900_int: "binade 900 = 9"
  by (rule binade_eqI) simp_all

lemma binade_09: "binade (9 / 10) = - 1"
  by (rule binade_eqI) simp_all

lemma float_09_product:
  "pf_times_1000 (Fin (8106479329266893 / 9007199254740992)) = Fin 900"
  by (simp add: fl_def binade_900 round_half_even_def Let_def powr_neg_numeral)

lemma float_09_quotient:
  "int_div_1000 900 = Inr (Fin (8106479329266893 / 9007199254740992))"
  by (simp add: int_div_1000_def fl_def binade_900_int binade_09 round_half_even_def Let_def
      powr_neg_numeral)

lemma binade_1e309:
  "binade (1000000000000000017216064596736454828831087825013238982328892017892380671244575047987920451875459594568606138861698291060311049225532948520696938805711440650122628514669428460356992624968028329550689224175284346730060716088829214255439694630119794546505512415617982143262670862918816362862119154749127262208 * 1000) = 1026"
  by (rule binade_eqI) simp_all

lemma float_1e306_product:
  "pf_times_1000 (Fin 1000000000000000017216064596736454828831087825013238982328892017892380671244575047987920451875459594568606138861698291060311049225532948520696938805711440650122628514669428460356992624968028329550689224175284346730060716088829214255439694630119794546505512415617982143262670862918816362862119154749127262208) = PInf"
  using binade_1e309 by (simp add: fl_def round_half_even_def Let_def)


section \<open>The secondary metric\<close>

text \<open>
  C2. A reporting interval whose score dictionary has no key \<open>roc_auc\<close> does not skip
  the scheduler and go on: the lookup raises \<open>KeyError\<close>, which ends the run. Here the
  scoring engine returns an empty dictionary, the reporting cadence is 1 and three steps
  are asked for; the loop is left in its second iteration, the first that reports.
\<close>

theorem missing_roc_auc_raises_KeyError:
  "fst (train_and_validate (demo_collab (\<lambda>w. Fin (1/2)) Map.empty)
          (demo_self 0 3 1 1 PInf) (0, [])) = Some KeyError
   \<and> map fst (history (snd (train_and_validate (demo_collab (\<lambda>w. Fin (1/2)) Map.empty)
          (demo_self 0 3 1 1 PInf) (0, [])))) = [0, 1]"
  by (simp add: train_and_validate_def upto_rec1 [of 0] upto_rec1 [of 1] upto_rec1 [of 2]
      loop_body_def demo_train demo_self_fields report_due_def py_mod_def report_stats_def
      demo_validate log_and_schedule_def save_checkpoint_def call_def Let_def)

text \<open>
  C10. When the score dictionary holds \<open>roc_auc\<close> with a value that is false in a
  condition (zero or \<open>None\<close>), the reporting branch writes the validation line with
  \<open>NA\<close> in the second column, hands nothing to the scheduler, and goes on to the
  checkpoint: what decides is the truth value of the entry, not the presence of the key.
\<close>

theorem falsy_roc_auc_logged_as_NA:
  assumes "validate c self s0 = (Inr valid_scores, s1)"
    and "valid_scores ''roc_auc'' = Some v" and "\<not> truthy v"
  shows "\<exists>vl s2. valid_scores ''loss'' = Some (PyFloat vl)
           \<and> report_stats c self step train_loss ml s0 = (Inr (py_min vl ml), s2)
           \<and> scheduler_steps (snd s2) = scheduler_steps (snd s0)
           \<and> metrics_lines ''validation'' (snd s2)
               = metrics_lines ''validation'' (snd s0) @ [[Val (PyFloat vl), Lit ''NA'']]"
proof -
  obtain vl where vl: "valid_scores ''loss'' = Some (PyFloat vl)"
    using validate_loss [OF assms(1)] by blast
  have tr: "snd s1 = snd s0 @ [ModelEval, MetricsUpdate]"
    using validate_ok_trace [OF assms(1)] .
  show ?thesis
    using assms vl tr
    by (simp add: report_stats_def log_and_schedule_def save_checkpoint_def call_def Let_def
        scheduler_steps_def metrics_lines_def)
qed

theorem falsy_roc_auc_logged_as_NA_witness:
  "\<exists>vl s2. ([''roc_auc'' \<mapsto> PyFloat (Fin 0)](''loss'' \<mapsto> PyFloat (Fin (1/2)))) ''loss''
              = Some (PyFloat vl)
      \<and> report_stats (demo_collab (\<lambda>w. Fin (1/2)) [''roc_auc'' \<mapsto> PyFloat (Fin 0)])
           (demo_self 0 10 5 5 PInf) 5 (Fin (1/2)) PInf (6, [])
         = (Inr (py_min vl PInf), s2)
      \<and> scheduler_steps (snd s2) = scheduler_steps (snd (6::nat, []::nat event list))
      \<and> metrics_lines ''validation'' (snd s2)
          = metrics_lines ''validation'' (snd (6::nat, []::nat event list))
              @ [[Val (PyFloat vl), Lit ''NA'']]"
proof -
  have h1: "validate (demo_collab (\<lambda>w. Fin (1/2)) [''roc_auc'' \<mapsto> PyFloat (Fin 0)])
              (demo_self 0 10 5 5 PInf) (6, [])
            = (Inr ([''roc_auc'' \<mapsto> PyFloat (Fin 0)](''loss'' \<mapsto> PyFloat (Fin (1/2)))),
               (6, [ModelEval, MetricsUpdate]))"
    by (simp add: demo_validate np_average_def)
  have h2: "([''roc_auc'' \<mapsto> PyFloat (Fin 0)](''loss'' \<mapsto> PyFloat (Fin (1/2)))) ''roc_auc''
            = Some (PyFloat (Fin 0))"
    by simp
  have h3: "\<not> truthy (PyFloat (Fin 0))" by simp
  show ?thesis by (rule falsy_roc_auc_logged_as_NA [OF h1 h2 h3])
qed


section \<open>Steps of a run\<close>

text \<open>
  C8, as stated, fails. An exception ends the loop before the last step. The constructor
  accepts a reporting cadence of 0; the test \<open>step % 0\<close> of step 1 then raises
  \<open>ZeroDivisionError\<close>, and of the three steps asked for only two are trained.
\<close>

theorem zero_cadence_ends_loop_early:
  "fst (init (demo_collab (\<lambda>w. Fin (1/2)) [''roc_auc'' \<mapsto> PyNone]) (demo_config 3 0 (Some 1))
          None (0, []))
     = Inr (demo_self 0 3 0 1 PInf)
   \<and> fst (train_and_validate (demo_collab (\<lambda>w. Fin (1/2)) [''roc_auc'' \<mapsto> PyNone])
          (demo_self 0 3 0 1 PInf)
          (snd (init (demo_collab (\<lambda>w. Fin (1/2)) [''roc_auc'' \<mapsto> PyNone])
                  (demo_config 3 0 (Some 1)) None (0, []))))
     = Some ZeroDivisionError
   \<and> length (map snd (history (snd (train_and_validate
          (demo_collab (\<lambda>w. Fin (1/2)) [''roc_auc'' \<mapsto> PyNone])
          (demo_self 0 3 0 1 PInf)
          (snd (init (demo_collab (\<lambda>w. Fin (1/2)) [''roc_auc'' \<mapsto> PyNone])
                  (demo_config 3 0 (Some 1)) None (0, []))))))) = 2
   \<and> nat (max_steps (demo_self 0 3 0 1 PInf) - start_step (demo_self 0 3 0 1 PInf)) = 3"
  by (simp add: demo_init train_and_validate_def upto_rec1 [of 0] upto_rec1 [of 1]
      upto_rec1 [of 2] loop_body_def demo_train demo_self_fields report_due_def py_mod_def
      save_checkpoint_def demo_call Let_def)

text \<open>
  C8, amended. One call of \<open>train\<close> makes exactly one optimizer update. A run makes
  one update for each iteration it enters, and each entered iteration yields one training
  loss (one entry of the history). When no exception ends the loop of
  \<open>train_and_validate\<close>, the sequence of training losses has length
  \<open>max_steps - start_step\<close>, and length zero when that difference is negative.
\<close>

theorem one_update_per_iteration:
  "optimizer_updates (snd (snd (train c self s))) = optimizer_updates (snd s) + 1
   \<and> optimizer_updates (snd (world (snd (train_and_validate c self s))))
       = optimizer_updates (snd s) + length (history (snd (train_and_validate c self s)))
   \<and> (fst (train_and_validate c self s) = None \<longrightarrow>
        length (map snd (history (snd (train_and_validate c self s))))
          = nat (max_steps self - start_step self))"
proof -
  have d: "length (map snd (history (snd (train_and_validate c self s))))
          = nat (max_steps self - start_step self)"
    if "fst (train_and_validate c self s) = None"
  proof -
    have "length (map fst (history (snd (train_and_validate c self s))))
            = length [start_step self .. max_steps self - 1]"
      using run_history [OF that] by simp
    then show ?thesis by simp
  qed
  show ?thesis using d by (simp add: ou_train run_updates)
qed

theorem one_update_per_iteration_witness:
  "fst (train_and_validate (demo_collab (\<lambda>w. Fin (1/2)) [''roc_auc'' \<mapsto> PyNone])
          (demo_self 0 3 2 2 PInf) (0, [])) = None
   \<and> length (map snd (history (snd (train_and_validate
          (demo_collab (\<lambda>w. Fin (1/2)) [''roc_auc'' \<mapsto> PyNone])
          (demo_self 0 3 2 2 PInf) (0, []))))) = nat (3 - 0)
   \<and> optimizer_updates (snd (world (snd (train_and_validate
          (demo_collab (\<lambda>w. Fin (1/2)) [''roc_auc'' \<mapsto> PyNone])
          (demo_self 0 3 2 2 PInf) (0, []))))) = 3"
  using one_update_per_iteration
    [of "demo_collab (\<lambda>w. Fin (1/2)) [''roc_auc'' \<mapsto> PyNone]" "demo_self 0 3 2 2 PInf" "(0, [])"]
  by (simp add: demo_run_3 demo_self_fields optimizer_updates_def)

text \<open>
  C1. Constructing the orchestrator from a checkpoint at step 8 with a configured step
  count of 5 should complete and give a run over the steps 8 to 12. The constructor stores
  the step count in the attribute \<open>max_steps\<close>, but the resume branch compares the
  checkpoint's step with the attribute \<open>max_step\<close> and adds to it; no line assigns that
  attribute, so reading it raises \<open>AttributeError\<close> and the construction does not
  complete.
\<close>

theorem resume_raises_AttributeError:
  "fst (init (demo_collab (\<lambda>w. Fin (1/2)) [''roc_auc'' \<mapsto> PyNone]) (demo_config 5 5 None)
          (Some \<lparr>ck_step = 8, ck_state = 0, ck_min_loss = Fin (1/2)\<rparr>) (0, []))
     = Inl AttributeError"
  by (simp add: init_from_checkpoint)


section \<open>Construction\<close>

text \<open>
  C3, as stated, fails. The constructor checks none of its numeric arguments. With a
  step count of \<open>-1\<close>, a reporting cadence of 0 and a checkpoint cadence of \<open>-3\<close> the
  construction completes, the object holds these values, and all side effects of a
  construction have taken place.
\<close>

theorem invalid_configuration_is_accepted:
  "fst (init (demo_collab (\<lambda>w. Fin (1/2)) [''roc_auc'' \<mapsto> PyNone])
          (demo_config (- 1) 0 (Some (- 3))) None (0, []))
     = Inr (demo_self 0 (- 1) 0 (- 3) PInf)
   \<and> snd (snd (init (demo_collab (\<lambda>w. Fin (1/2)) [''roc_auc'' \<mapsto> PyNone])
          (demo_config (- 1) 0 (Some (- 3))) None (0, [])))
     = [OptimizerInit, SetNumThreads 32, MakeDirs, InitializeLogger,
        GetValidationSet 1 None, MetricsLoggerOpen ''train'',
        MetricsLoggerOpen ''validation'', MetricsLog ''train'' [Lit ''loss''],
        MetricsLog ''validation'' [Lit ''loss'', Lit ''roc_auc'']]"
  by (simp add: demo_init)

text \<open>
  C3, amended. A construction without a checkpoint completes for every configuration
  and stores batch size, step count and reporting cadence as given; the checkpoint
  cadence is the given one, or the reporting cadence when none or zero is given. So for
  every valid configuration the object satisfies the invariant: batch size above zero,
  step count not negative, both cadences above zero.
\<close>

theorem construction_stores_configuration:
  "\<exists>self s1. init c cfg None s0 = (Inr self, s1)
     \<and> batch_size self = batch_size_arg cfg
     \<and> max_steps self = max_steps_arg cfg
     \<and> nth_step_report_stats self = report_stats_every_n_steps cfg
     \<and> nth_step_save_checkpoint self = checkpoint_cadence cfg
     \<and> (valid_config cfg \<longrightarrow>
          0 < batch_size self \<and> 0 \<le> max_steps self
          \<and> 0 < nth_step_report_stats self \<and> 0 < nth_step_save_checkpoint self)"
  by (auto simp: init_fresh init_setup_fields valid_config_def checkpoint_cadence_def
      split: option.splits)

theorem construction_stores_configuration_witness:
  "valid_config (demo_config 3 2 (Some 2))
   \<and> (\<exists>self s1. init (demo_collab (\<lambda>w. Fin (1/2)) [''roc_auc'' \<mapsto> PyNone])
                   (demo_config 3 2 (Some 2)) None (0, []) = (Inr self, s1)
        \<and> 0 < batch_size self \<and> 0 \<le> max_steps self
        \<and> 0 < nth_step_report_stats self \<and> 0 < nth_step_save_checkpoint self)"
proof -
  have v: "valid_config (demo_config 3 2 (Some 2))"
    by (simp add: valid_config_def demo_config_def)
  show ?thesis
    using v construction_stores_configuration
      [of "demo_collab (\<lambda>w. Fin (1/2)) [''roc_auc'' \<mapsto> PyNone]" "demo_config 3 2 (Some 2)"
          "(0, [])"]
    by blast
qed


section \<open>The value given to the scheduler\<close>

text \<open>
  C4, as stated, fails. For the score 0.50048828125, which is a float, the product with
  \<open>1000.0\<close> is the float 500.48828125 and its ceiling is 501, so the scheduler receives
  the float of 0.501, while the score rounded to three decimal digits is 0.5.
\<close>

theorem scheduler_value_is_not_rounded:
  "scheduler_steps (snd (snd (log_and_schedule
       (demo_collab (\<lambda>w. Fin (1/2)) Map.empty)
       [''roc_auc'' \<mapsto> PyFloat (Fin (1025 / 2048))] (PyFloat (Fin (1/2))) (0, []))))
     = [(lr_scheduler, Fin (4512606826625237 / 9007199254740992))]
   \<and> spec_rounded_3_digits (1025 / 2048) = Fin (1 / 2)"
  by (simp add: log_and_schedule_def demo_call scheduler_steps_def int_div_1000_def
      spec_rounded_3_digits_def round_def fl_product fl_501 fl_quotient fl_half)

text \<open>
  C4, amended. When the score dictionary holds a finite \<open>roc_auc\<close> other than zero,
  the value handed to the scheduler is \<open>math.ceil(score * 1000.0) / 1000.0\<close> in float
  arithmetic: the float product \<open>p\<close> of the score and 1000 is rounded up to the least
  integer not below it, that integer is converted to a float \<open>m\<close>, and the float
  quotient of \<open>m\<close> and 1000 is handed over. When the float product is an infinity, or
  the integer is too large for a float, \<open>OverflowError\<close> is raised and nothing is handed
  over. The scheduler was created in
  mode \<open>max\<close> with a patience of 16 and the float 0.8 as factor.
\<close>

theorem scheduler_gets_float_ceiling:
  assumes "valid_scores ''roc_auc'' = Some (PyFloat (Fin r))" and "r \<noteq> 0"
  shows "(fl (r * 1000) = Fin p \<longrightarrow> fl (real_of_int \<lceil>p\<rceil>) = Fin m \<longrightarrow>
            log_and_schedule c valid_scores validation_loss s0
              = (Inr (), call c (SchedulerStep lr_scheduler (fl (m / 1000)))
                           (call c (MetricsLog ''validation''
                                      [Val validation_loss, Val (PyFloat (Fin r))]) s0))
            \<and> real_of_int \<lceil>p\<rceil> - 1 < p \<and> p \<le> real_of_int \<lceil>p\<rceil>
            \<and> scheduler_steps (snd (snd (log_and_schedule c valid_scores validation_loss s0)))
                = scheduler_steps (snd s0) @ [(lr_scheduler, fl (m / 1000))])
         \<and> (fl (r * 1000) = PInf \<or> fl (r * 1000) = NInf
              \<or> (fl (r * 1000) = Fin p
                  \<and> (fl (real_of_int \<lceil>p\<rceil>) = PInf \<or> fl (real_of_int \<lceil>p\<rceil>) = NInf)) \<longrightarrow>
              fst (log_and_schedule c valid_scores validation_loss s0) = Inl OverflowError
              \<and> scheduler_steps (snd (snd (log_and_schedule c valid_scores validation_loss s0)))
                  = scheduler_steps (snd s0))
         \<and> patience lr_scheduler = 16 \<and> factor lr_scheduler = fl (8 / 10)
         \<and> mode lr_scheduler = ''max''"
proof -
  have a: "log_and_schedule c valid_scores validation_loss s0
              = (Inr (), call c (SchedulerStep lr_scheduler (fl (m / 1000)))
                           (call c (MetricsLog ''validation''
                                      [Val validation_loss, Val (PyFloat (Fin r))]) s0))"
    if "fl (r * 1000) = Fin p" and "fl (real_of_int \<lceil>p\<rceil>) = Fin m"
    using assms that by (simp add: log_and_schedule_def Let_def int_div_1000_def)
  have b: "scheduler_steps (snd (snd (log_and_schedule c valid_scores validation_loss s0)))
                = scheduler_steps (snd s0) @ [(lr_scheduler, fl (m / 1000))]"
    if "fl (r * 1000) = Fin p" and "fl (real_of_int \<lceil>p\<rceil>) = Fin m"
    by (simp add: a [OF that] call_def scheduler_steps_def)
  have d: "fst (log_and_schedule c valid_scores validation_loss s0) = Inl OverflowError
              \<and> scheduler_steps (snd (snd (log_and_schedule c valid_scores validation_loss s0)))
                  = scheduler_steps (snd s0)"
    if "fl (r * 1000) = PInf \<or> fl (r * 1000) = NInf
          \<or> (fl (r * 1000) = Fin p
              \<and> (fl (real_of_int \<lceil>p\<rceil>) = PInf \<or> fl (real_of_int \<lceil>p\<rceil>) = NInf))"
    using assms that
    by (auto simp: log_and_schedule_def Let_def call_def scheduler_steps_def int_div_1000_def)
  have e: "real_of_int \<lceil>p\<rceil> - 1 < p \<and> p \<le> real_of_int \<lceil>p\<rceil>"
    by linarith
  show ?thesis
    using a b d e by (simp add: lr_scheduler_def)
qed

theorem scheduler_gets_float_ceiling_witness:
  "[''roc_auc'' \<mapsto> PyFloat (Fin (1025 / 2048))] ''roc_auc'' = Some (PyFloat (Fin (1025 / 2048)))
   \<and> (1025 / 2048 :: real) \<noteq> 0
   \<and> fl (1025 / 2048 * 1000) = Fin (128125 / 256)
   \<and> fl (real_of_int \<lceil>128125 / 256 :: real\<rceil>) = Fin 501
   \<and> scheduler_steps (snd (snd (log_and_schedule (demo_collab (\<lambda>w. Fin (1/2)) Map.empty)
        [''roc_auc'' \<mapsto> PyFloat (Fin (1025 / 2048))] (PyFloat (Fin (1/2))) (0, []))))
      = scheduler_steps (snd (0::nat, [] :: nat event list)) @ [(lr_scheduler, fl (501 / 1000))]"
proof -
  have h1: "[''roc_auc'' \<mapsto> PyFloat (Fin (1025 / 2048))] ''roc_auc''
              = Some (PyFloat (Fin (1025 / 2048)))"
    by simp
  have h2: "(1025 / 2048 :: real) \<noteq> 0" by simp
  have h3: "fl (1025 / 2048 * 1000) = Fin (128125 / 256)" by (simp add: fl_product)
  have h4: "fl (real_of_int \<lceil>128125 / 256 :: real\<rceil>) = Fin 501" by (simp add: fl_501)
  show ?thesis
    using h1 h2 h3 h4 scheduler_gets_float_ceiling
      [of "[''roc_auc'' \<mapsto> PyFloat (Fin (1025 / 2048))]" "1025 / 2048" "128125 / 256" 501
          "demo_collab (\<lambda>w. Fin (1/2)) Map.empty" "PyFloat (Fin (1/2))" "(0, [])"]
    by blast
qed


section \<open>Evaluation order\<close>




section \<open>Checkpoints of a fresh run\<close>

text \<open>
  C9. In a run of a freshly constructed orchestrator with a step count of at least one
  and a checkpoint cadence above zero, the first iteration trains once and then writes a
  checkpoint for step 0 whose \<open>min_loss\<close> is positive infinity. The write is not
  followed by a copy to the best slot: the checkpoint is not tagged best. This holds
  whatever the collaborators return and however the run goes on.
\<close>

theorem step_zero_writes_checkpoint:
  assumes "init c cfg None s0 = (Inr self, s1)"
    and "1 \<le> max_steps_arg cfg" and "0 < checkpoint_cadence cfg"
  shows "\<exists>w rest. snd (world (snd (train_and_validate c self s1)))
           = snd s1 @ [SchedulerInit lr_scheduler, ModelTrain, SetMode ''train'',
                       Sample (batch_size_arg cfg), ZeroGrad, Backward, OptimizerStep,
                       TorchSave \<lparr>ck_step = 0, ck_state = w, ck_min_loss = PInf\<rparr>
                         ''checkpoint.pth.tar'']
               @ rest
         \<and> (\<forall>src dst. take 1 rest \<noteq> [CopyFile src dst])"
proof -
  from assms(1) have self: "self = fst (init_setup c cfg s0)"
    by (simp add: init_fresh)
  have f: "start_step self = 0" "max_steps self = max_steps_arg cfg"
    "batch_size self = batch_size_arg cfg" "min_loss self = PInf"
    "nth_step_save_checkpoint self = checkpoint_cadence cfg"
    by (simp_all add: self init_setup_fields)
  let ?s = "call c (SchedulerInit lr_scheduler) s1"
  let ?ls0 = "\<lparr> min_loss_var = PInf, world = ?s, history = [] \<rparr>"
  have steps: "[start_step self .. max_steps self - 1] = 0 # [1 .. max_steps_arg cfg - 1]"
    using assms(2) f by (simp add: upto_rec1)
  obtain trl st where t: "train c self (world ?ls0) = (trl, st)"
    by (cases "train c self (world ?ls0)")
  have st: "snd st = snd s1 @ [SchedulerInit lr_scheduler, ModelTrain, SetMode ''train'',
                       Sample (batch_size_arg cfg), ZeroGrad, Backward, OptimizerStep]"
    using train_trace [of c self "world ?ls0"] t f by (simp add: call_def)
  have d: "report_due self 0 = Inr False" by (simp add: report_due_def)
  define ls1 where "ls1 = \<lparr> min_loss_var = PInf,
      world = save_checkpoint c \<lparr>ck_step = 0, ck_state = fst st, ck_min_loss = PInf\<rparr> False st,
      history = [(0, trl)] \<rparr>"
  have b: "loop_body c self 0 ?ls0 = (None, ls1)"
    using assms(3) f by (simp add: loop_body_no_report [OF t d] Let_def py_mod_def ls1_def)
  have w1: "snd (world ls1) = snd st @ [TorchSave \<lparr>ck_step = 0, ck_state = fst st, ck_min_loss = PInf\<rparr>
                         ''checkpoint.pth.tar'']"
    by (simp add: ls1_def save_checkpoint_def call_def)
  obtain more where m: "snd (world (snd (for_steps c self [1 .. max_steps_arg cfg - 1] ls1)))
        = snd (world ls1) @ more" and nc: "\<forall>src dst. take 1 more \<noteq> [CopyFile src dst]"
    using for_steps_trace [of c self "[1 .. max_steps_arg cfg - 1]" ls1] by blast
  obtain r ls2 where fs: "for_steps c self [1 .. max_steps_arg cfg - 1] ls1 = (r, ls2)"
    by (cases "for_steps c self [1 .. max_steps_arg cfg - 1] ls1")
  have run: "train_and_validate c self s1
      = (case r of Some e \<Rightarrow> (Some e, ls2)
         | None \<Rightarrow> (None, ls2\<lparr>world := call c (SaveDatasetToFile ''train'' True) (world ls2)\<rparr>))"
    using b fs f steps by (simp add: train_and_validate_def Let_def split: option.splits)
  have "\<exists>rest. snd (world (snd (train_and_validate c self s1))) = snd (world ls1) @ rest
          \<and> (\<forall>src dst. take 1 rest \<noteq> [CopyFile src dst])"
  proof (cases r)
    case (Some e)
    then show ?thesis using run m nc fs by simp
  next
    case None
    have "snd (world (snd (train_and_validate c self s1)))
            = snd (world ls1) @ (more @ [SaveDatasetToFile ''train'' True])"
      using run None m fs by (simp add: call_def)
    moreover have "\<forall>src dst. take 1 (more @ [SaveDatasetToFile ''train'' True]) \<noteq> [CopyFile src dst]"
      using nc by (cases more) simp_all
    ultimately show ?thesis by blast
  qed
  then show ?thesis using w1 st by auto
qed

theorem step_zero_writes_checkpoint_witness:
  "init (demo_collab (\<lambda>w. Fin (1/2)) [''roc_auc'' \<mapsto> PyNone]) (demo_config 3 2 (Some 2)) None
       (0, [])
     = (Inr (demo_self 0 3 2 2 PInf),
        (0, [OptimizerInit, SetNumThreads 32, MakeDirs, InitializeLogger,
             GetValidationSet 1 None, MetricsLoggerOpen ''train'',
             MetricsLoggerOpen ''validation'', MetricsLog ''train'' [Lit ''loss''],
             MetricsLog ''validation'' [Lit ''loss'', Lit ''roc_auc'']]))
   \<and> 1 \<le> max_steps_arg (demo_config 3 2 (Some 2))
   \<and> 0 < checkpoint_cadence (demo_config 3 2 (Some 2))
   \<and> (\<exists>w rest. snd (world (snd (train_and_validate
            (demo_collab (\<lambda>w. Fin (1/2)) [''roc_auc'' \<mapsto> PyNone]) (demo_self 0 3 2 2 PInf)
            (0, [OptimizerInit, SetNumThreads 32, MakeDirs, InitializeLogger,
                 GetValidationSet 1 None, MetricsLoggerOpen ''train'',
                 MetricsLoggerOpen ''validation'', MetricsLog ''train'' [Lit ''loss''],
                 MetricsLog ''validation'' [Lit ''loss'', Lit ''roc_auc'']]))))
           = snd (0::nat, [OptimizerInit, SetNumThreads 32, MakeDirs, InitializeLogger,
                 GetValidationSet 1 None, MetricsLoggerOpen ''train'',
                 MetricsLoggerOpen ''validation'', MetricsLog ''train'' [Lit ''loss''],
                 MetricsLog ''validation'' [Lit ''loss'', Lit ''roc_auc'']])
             @ [SchedulerInit lr_scheduler, ModelTrain, SetMode ''train'',
                Sample (batch_size_arg (demo_config 3 2 (Some 2))), ZeroGrad, Backward,
                OptimizerStep,
                TorchSave \<lparr>ck_step = 0, ck_state = w, ck_min_loss = PInf\<rparr>
                  ''checkpoint.pth.tar'']
             @ rest
         \<and> (\<forall>src dst. take 1 rest \<noteq> [CopyFile src dst]))"
proof -
  have h1: "init (demo_collab (\<lambda>w. Fin (1/2)) [''roc_auc'' \<mapsto> PyNone]) (demo_config 3 2 (Some 2))
       None (0, [])
     = (Inr (demo_self 0 3 2 2 PInf),
        (0, [OptimizerInit, SetNumThreads 32, MakeDirs, InitializeLogger,
             GetValidationSet 1 None, MetricsLoggerOpen ''train'',
             MetricsLoggerOpen ''validation'', MetricsLog ''train'' [Lit ''loss''],
             MetricsLog ''validation'' [Lit ''loss'', Lit ''roc_auc'']]))"
    by (simp add: demo_init)
  have h2: "1 \<le> max_steps_arg (demo_config 3 2 (Some 2))"
    by (simp add: demo_config_def)
  have h3: "0 < checkpoint_cadence (demo_config 3 2 (Some 2))"
    by (simp add: demo_config_def checkpoint_cadence_def)
  show ?thesis
    using h1 h2 h3 step_zero_writes_checkpoint [OF h1 h2 h3] by blast
qed

text \<open>
  C7, as stated, fails. An exception in the reporting branch of step 5 ends the run
  there. With a score dictionary whose \<open>roc_auc\<close> is infinite, \<open>math.ceil\<close> raises
  \<open>OverflowError\<close> after the validation pass and the two log lines: no checkpoint is
  written at step 5, and the steps 6 to 9 are not trained.
\<close>

theorem scenario_stops_at_exception:
  "fst (init (demo_collab (\<lambda>w. Fin (1/2)) [''roc_auc'' \<mapsto> PyFloat PInf])
          (demo_config 10 5 (Some 5)) None (0, []))
     = Inr (demo_self 0 10 5 5 PInf)
   \<and> fst (train_and_validate (demo_collab (\<lambda>w. Fin (1/2)) [''roc_auc'' \<mapsto> PyFloat PInf])
          (demo_self 0 10 5 5 PInf)
          (snd (init (demo_collab (\<lambda>w. Fin (1/2)) [''roc_auc'' \<mapsto> PyFloat PInf])
                  (demo_config 10 5 (Some 5)) None (0, []))))
     = Some OverflowError
   \<and> marks (snd (world (snd (train_and_validate
          (demo_collab (\<lambda>w. Fin (1/2)) [''roc_auc'' \<mapsto> PyFloat PInf])
          (demo_self 0 10 5 5 PInf)
          (snd (init (demo_collab (\<lambda>w. Fin (1/2)) [''roc_auc'' \<mapsto> PyFloat PInf])
                  (demo_config 10 5 (Some 5)) None (0, [])))))))
     = [Update, Save 0, Update, Update, Update, Update,
        Update, Evaluation, TrainLine, ValidationLine]"
  by (simp add: demo_init train_and_validate_def upto_0_9 loop_body_def demo_train
      demo_self_fields report_due_def py_mod_def report_stats_def demo_validate
      log_and_schedule_def save_checkpoint_def demo_call Let_def np_average_def marks_def)

text \<open>
  C7, amended. A fresh run with a step count of 10, a reporting cadence of 5 and a
  checkpoint cadence of 5 that no exception ends goes as follows: step 0 trains and
  writes a checkpoint; steps 1 to 4 only train; step 5 trains, runs one evaluation pass,
  writes one line to the training log and one to the validation log, writes the
  checkpoint of the reporting branch, copies it to the best slot or not according to the
  one best-checkpoint test, and then writes the checkpoint of the cadence; steps 6 to 9
  only train. Checkpoints are written at steps 0 and 5 only, and the only evaluation pass
  is that of step 5.
\<close>

theorem scenario_10_5_5:
  assumes "init c cfg None s0 = (Inr self, s1)"
    and "max_steps_arg cfg = 10" and "report_stats_every_n_steps cfg = 5"
    and "checkpoint_cadence cfg = 5"
    and "fst (train_and_validate c self s1) = None"
  shows "\<exists>best. marks (snd (world (snd (train_and_validate c self s1))))
           = marks (snd s1)
               @ [Update, Save 0,
                  Update, Update, Update, Update,
                  Update, Evaluation, TrainLine, ValidationLine, Save 5] @ best @ [Save 5,
                  Update, Update, Update, Update]
         \<and> (best = [] \<or> best = [BestCopy])"
proof -
  from assms(1) have self: "self = fst (init_setup c cfg s0)"
    by (simp add: init_fresh)
  have f: "start_step self = 0" "max_steps self = 10" "nth_step_report_stats self = 5"
    "nth_step_save_checkpoint self = 5"
    using assms(2-4) by (simp_all add: self init_setup_fields)
  let ?s = "call c (SchedulerInit lr_scheduler) s1"
  let ?ls0 = "\<lparr> min_loss_var = min_loss self, world = ?s, history = [] \<rparr>"
  have m0: "marks (snd ?s) = marks (snd s1)"
    by (simp add: call_def marks_def)
  have steps: "[start_step self .. max_steps self - 1] = [0] @ [1, 2, 3, 4] @ [5] @ [6, 7, 8, 9]"
    using upto_0_9 by (simp add: f)
  obtain ls1 where b0: "loop_body c self 0 ?ls0 = (None, ls1)"
    and m1: "marks (snd (world ls1)) = marks (snd (world ?ls0)) @ [Update, Save 0]"
  proof -
    have "report_due self 0 = Inr False" by (simp add: report_due_def)
    moreover have "py_mod 0 (nth_step_save_checkpoint self) = Inr 0"
      by (simp add: py_mod_def f)
    ultimately show ?thesis using that step_save_only [of self 0 c ?ls0] by blast
  qed
  have q1: "\<forall>step \<in> set [1, 2, 3, 4]. report_due self step = Inr False
             \<and> (\<exists>r. py_mod step (nth_step_save_checkpoint self) = Inr r \<and> r \<noteq> 0)"
    by (simp add: report_due_def py_mod_def f)
  obtain ls5 where b1: "for_steps c self [1, 2, 3, 4] ls1 = (None, ls5)"
    and m5: "marks (snd (world ls5))
               = marks (snd (world ls1)) @ replicate (length [1, 2, 3, 4 :: int]) Update"
    using for_steps_quiet [OF q1, of c ls1] by blast
  obtain r5 ls6 where b5: "loop_body c self 5 ls5 = (r5, ls6)"
    by (cases "loop_body c self 5 ls5")
  have q2: "\<forall>step \<in> set [6, 7, 8, 9]. report_due self step = Inr False
             \<and> (\<exists>r. py_mod step (nth_step_save_checkpoint self) = Inr r \<and> r \<noteq> 0)"
    by (simp add: report_due_def py_mod_def f)
  obtain ls10 where b6: "for_steps c self [6, 7, 8, 9] ls6 = (None, ls10)"
    and m10: "marks (snd (world ls10))
                = marks (snd (world ls6)) @ replicate (length [6, 7, 8, 9 :: int]) Update"
    using for_steps_quiet [OF q2, of c ls6] by blast
  have fs: "for_steps c self [start_step self .. max_steps self - 1] ?ls0
              = (case r5 of Some e \<Rightarrow> (Some e, ls6) | None \<Rightarrow> (None, ls10))"
    unfolding steps for_steps_append using b0 b1 b5 b6
    by (simp split: option.splits)
  have r5: "r5 = None"
    using assms(5) fs by (cases r5) (simp_all add: train_and_validate_def Let_def)
  obtain best where m6: "marks (snd (world ls6)) = marks (snd (world ls5))
              @ [Update, Evaluation, TrainLine, ValidationLine, Save 5] @ best @ [Save 5]"
    and best: "best = [] \<or> best = [BestCopy]"
  proof -
    have "report_due self 5 = Inr True" by (simp add: report_due_def py_mod_def f)
    moreover have "py_mod 5 (nth_step_save_checkpoint self) = Inr 0"
      by (simp add: py_mod_def f)
    moreover have "loop_body c self 5 ls5 = (None, ls6)" using b5 r5 by simp
    ultimately show ?thesis using that step_report_and_save by blast
  qed
  have "snd (train_and_validate c self s1)
          = ls10\<lparr>world := call c (SaveDatasetToFile ''train'' True) (world ls10)\<rparr>"
    using fs r5 by (simp add: train_and_validate_def Let_def)
  then have "marks (snd (world (snd (train_and_validate c self s1)))) = marks (snd (world ls10))"
    by (simp add: call_def marks_def)
  then have "marks (snd (world (snd (train_and_validate c self s1))))
           = marks (snd s1)
               @ [Update, Save 0,
                  Update, Update, Update, Update,
                  Update, Evaluation, TrainLine, ValidationLine, Save 5] @ best @ [Save 5,
                  Update, Update, Update, Update]"
    by (simp add: m10 m6 m5 m1 m0 numeral_eq_Suc)
  then show ?thesis using best by blast
qed

theorem scenario_10_5_5_witness:
  "init (demo_collab (\<lambda>w. Fin (1/2)) [''roc_auc'' \<mapsto> PyNone]) (demo_config 10 5 (Some 5)) None
       (0, [])
     = (Inr (demo_self 0 10 5 5 PInf),
        (0, [OptimizerInit, SetNumThreads 32, MakeDirs, InitializeLogger,
             GetValidationSet 1 None, MetricsLoggerOpen ''train'',
             MetricsLoggerOpen ''validation'', MetricsLog ''train'' [Lit ''loss''],
             MetricsLog ''validation'' [Lit ''loss'', Lit ''roc_auc'']]))
   \<and> max_steps_arg (demo_config 10 5 (Some 5)) = 10
   \<and> report_stats_every_n_steps (demo_config 10 5 (Some 5)) = 5
   \<and> checkpoint_cadence (demo_config 10 5 (Some 5)) = 5
   \<and> fst (train_and_validate (demo_collab (\<lambda>w. Fin (1/2)) [''roc_auc'' \<mapsto> PyNone])
          (demo_self 0 10 5 5 PInf)
          (0, [OptimizerInit, SetNumThreads 32, MakeDirs, InitializeLogger,
               GetValidationSet 1 None, MetricsLoggerOpen ''train'',
               MetricsLoggerOpen ''validation'', MetricsLog ''train'' [Lit ''loss''],
               MetricsLog ''validation'' [Lit ''loss'', Lit ''roc_auc'']])) = None
   \<and> marks (snd (world (snd (train_and_validate
          (demo_collab (\<lambda>w. Fin (1/2)) [''roc_auc'' \<mapsto> PyNone])
          (demo_self 0 10 5 5 PInf)
          (0, [OptimizerInit, SetNumThreads 32, MakeDirs, InitializeLogger,
               GetValidationSet 1 None, MetricsLoggerOpen ''train'',
               MetricsLoggerOpen ''validation'', MetricsLog ''train'' [Lit ''loss''],
               MetricsLog ''validation'' [Lit ''loss'', Lit ''roc_auc'']])))))
       = [Update, Save 0,
          Update, Update, Update, Update,
          Update, Evaluation, TrainLine, ValidationLine, Save 5, BestCopy, Save 5,
          Update, Update, Update, Update]"
proof -
  let ?c = "demo_collab (\<lambda>w. Fin (1/2)) [''roc_auc'' \<mapsto> PyNone]"
  let ?tr = "[OptimizerInit, SetNumThreads 32, MakeDirs, InitializeLogger,
             GetValidationSet 1 None, MetricsLoggerOpen ''train'',
             MetricsLoggerOpen ''validation'', MetricsLog ''train'' [Lit ''loss''],
             MetricsLog ''validation'' [Lit ''loss'', Lit ''roc_auc'']] :: nat event list"
  have h1: "init ?c (demo_config 10 5 (Some 5)) None (0, [])
              = (Inr (demo_self 0 10 5 5 PInf), (0, ?tr))"
    by (simp add: demo_init)
  have h2: "max_steps_arg (demo_config 10 5 (Some 5)) = 10"
    and h3: "report_stats_every_n_steps (demo_config 10 5 (Some 5)) = 5"
    and h4: "checkpoint_cadence (demo_config 10 5 (Some 5)) = 5"
    by (simp_all add: demo_config_def checkpoint_cadence_def)
  have h5: "fst (train_and_validate ?c (demo_self 0 10 5 5 PInf) (0, ?tr)) = None"
    by (rule demo_run_10)
  have m: "marks ?tr = []" by (simp add: marks_def)
  have b: "BestCopy \<in> set (marks (snd (world (snd (train_and_validate ?c
              (demo_self 0 10 5 5 PInf) (0, ?tr))))))"
    by (simp add: train_and_validate_def upto_0_9 loop_body_def demo_train demo_self_fields
        report_due_def py_mod_def report_stats_def demo_validate log_and_schedule_def
        save_checkpoint_def demo_call Let_def np_average_def py_min_def marks_def)
  obtain best where e: "marks (snd (world (snd (train_and_validate ?c
              (demo_self 0 10 5 5 PInf) (0, ?tr)))))
           = marks (snd (0::nat, ?tr))
               @ [Update, Save 0,
                  Update, Update, Update, Update,
                  Update, Evaluation, TrainLine, ValidationLine, Save 5] @ best @ [Save 5,
                  Update, Update, Update, Update]"
    and c: "best = [] \<or> best = [BestCopy]"
    using scenario_10_5_5 [OF h1 h2 h3 h4 h5] by blast
  have "best = [BestCopy]"
    using b c unfolding e by (auto simp: m)
  then show ?thesis
    using h1 h2 h3 h4 h5 e by (simp add: m)
qed


section \<open>The best checkpoint\<close>

text \<open>
  C5, as stated, fails, in two ways. A comparison with NaN is false, and \<open>min\<close>
  returns its first argument unless the second is strictly smaller; so a validation loss
  that is NaN becomes the running best score without a write to the best slot, and the
  next validation loss replaces it in turn, again without a write. With the validation
  losses 0.5, NaN, 0.9, 0.8 at four successive reporting intervals, the best slot is
  written with \<open>min_loss\<close> 0.5 and later with \<open>min_loss\<close> 0.8, which is larger. And a
  reporting interval that an exception ends writes no checkpoint: with an infinite
  \<open>roc_auc\<close> the validation loss 0.5, below the running best score, is observed and
  logged, and the best slot is never written.
\<close>

theorem best_slot_claim_fails:
  "map ck_min_loss (best_slot_writes Map.empty (snd (world (snd (train_and_validate
       (demo_collab (\<lambda>w. if w = 2 then Fin (1/2) else if w = 3 then NaN
                          else if w = 4 then Fin (9/10) else Fin (4/5))
          [''roc_auc'' \<mapsto> PyNone])
       (demo_self 0 5 1 100 PInf) (0, []))))))
     = [Fin (1/2), Fin (4/5)]
   \<and> \<not> pf_le (Fin (4/5)) (Fin (1/2))
   \<and> observed_validation_losses (snd (world (snd (train_and_validate
        (demo_collab (\<lambda>w. Fin (1/2)) [''roc_auc'' \<mapsto> PyFloat PInf])
        (demo_self 0 2 1 100 PInf) (0, [])))))
     = [Fin (1/2)]
   \<and> pf_lt (Fin (1/2)) (min_loss (demo_self 0 2 1 100 PInf))
   \<and> best_slot_writes Map.empty (snd (world (snd (train_and_validate
        (demo_collab (\<lambda>w. Fin (1/2)) [''roc_auc'' \<mapsto> PyFloat PInf])
        (demo_self 0 2 1 100 PInf) (0, [])))))
     = []"
  by (simp add: train_and_validate_def upto_rec1 [of 0] upto_rec1 [of 1] upto_rec1 [of 2]
      upto_rec1 [of 3] upto_rec1 [of 4] upto_rec1 [of 5]
      loop_body_def demo_train demo_self_fields report_due_def py_mod_def report_stats_def
      demo_validate log_and_schedule_def save_checkpoint_def demo_call Let_def np_average_def
      py_min_def observed_validation_losses_def)

text \<open>
  C5, amended. At a reporting interval that no exception ends, the best slot is
  overwritten if and only if the validation loss of that interval is strictly smaller
  than the running best score, and the running best score, which is the \<open>min_loss\<close>
  that the checkpoint records, is then that loss. A reporting interval that an exception
  ends and an iteration that does not report write nothing to the best slot. In a run
  whose initial best score is not NaN and in which no validation loss is NaN, the
  \<open>min_loss\<close> values written to the best slot are strictly decreasing, hence
  non-increasing, and all lie below the initial best score; this holds whether or not an
  exception ends the run.
\<close>

theorem best_slot_decreases_without_NaN:
  "(report_stats c self step trl ml s' = (Inr ml', s2) \<longrightarrow>
      (\<exists>vl. observed_validation_losses (drop (length (snd s')) (snd s2)) = [vl]
         \<and> ml' = py_min vl ml \<and> (pf_lt vl ml \<longrightarrow> ml' = vl)
         \<and> (\<forall>files. map ck_min_loss (best_slot_writes files (drop (length (snd s')) (snd s2)))
                      = (if pf_lt vl ml then [vl] else []))))
   \<and> (report_stats c self step trl ml s' = (Inl e, s2) \<longrightarrow>
        (\<forall>files. best_slot_writes files (drop (length (snd s')) (snd s2)) = []))
   \<and> (report_due self step = Inr False \<longrightarrow>
        (\<forall>files. best_slot_writes files
                    (drop (length (snd (world ls))) (snd (world (snd (loop_body c self step ls)))))
                  = []))
   \<and> (min_loss self \<noteq> NaN \<longrightarrow>
        NaN \<notin> set (observed_validation_losses
                     (drop (length (snd s)) (snd (world (snd (train_and_validate c self s)))))) \<longrightarrow>
        (\<forall>files. sorted_wrt (\<lambda>a b. pf_lt b a)
                   (min_loss self
                    # map ck_min_loss
                        (best_slot_writes files
                           (drop (length (snd s))
                              (snd (world (snd (train_and_validate c self s)))))))))"
proof (intro conjI impI)
  assume e: "report_stats c self step trl ml s' = (Inr ml', s2)"
  obtain vl vr sched w where ml: "ml' = py_min vl ml"
    and tr: "snd s2 = snd s' @ [ModelEval, MetricsUpdate,
                               MetricsLog ''train'' [Val (PyFloat trl)],
                               MetricsLog ''validation'' [Val (PyFloat vl), vr]]
                         @ sched
                         @ [TorchSave \<lparr>ck_step = step, ck_state = w,
                                       ck_min_loss = py_min vl ml\<rparr>
                              ''checkpoint.pth.tar'']
                         @ (if pf_lt vl ml
                            then [CopyFile ''checkpoint.pth.tar'' ''best_model.pth.tar'']
                            else [])"
    and sh: "sched = [] \<or> (\<exists>v. sched = [SchedulerStep lr_scheduler v])"
    using report_stats_ok_trace [OF e] by blast
  have o: "observed_validation_losses (drop (length (snd s')) (snd s2)) = [vl]"
    using sh unfolding tr by (auto simp: observed_validation_losses_def)
  have b: "map ck_min_loss (best_slot_writes files (drop (length (snd s')) (snd s2)))
             = (if pf_lt vl ml then [vl] else [])" for files
    using sh unfolding tr by (auto simp: py_min_less)
  show "\<exists>vl. observed_validation_losses (drop (length (snd s')) (snd s2)) = [vl]
         \<and> ml' = py_min vl ml \<and> (pf_lt vl ml \<longrightarrow> ml' = vl)
         \<and> (\<forall>files. map ck_min_loss (best_slot_writes files (drop (length (snd s')) (snd s2)))
                      = (if pf_lt vl ml then [vl] else []))"
    using o b ml by (auto simp: py_min_less)
next
  assume e: "report_stats c self step trl ml s' = (Inl e, s2)"
  obtain lg where lg: "snd s2 = snd s' @ lg"
    and pl: "\<forall>x \<in> set lg. x = ModelEval \<or> x = MetricsUpdate
               \<or> (\<exists>n cells. x = MetricsLog n cells)"
    using report_stats_err_trace [OF e] by blast
  show "\<forall>files. best_slot_writes files (drop (length (snd s')) (snd s2)) = []"
    using bsw_plain [OF pl] by (simp add: lg)
next
  assume d: "report_due self step = Inr False"
  obtain trl1 s1 where t: "train c self (world ls) = (trl1, s1)"
    by (cases "train c self (world ls)")
  have s1: "snd s1 = snd (world ls) @ [ModelTrain, SetMode ''train'', Sample (batch_size self),
                                       ZeroGrad, Backward, OptimizerStep]"
    using train_trace [of c self "world ls"] t by simp
  show "\<forall>files. best_slot_writes files
                    (drop (length (snd (world ls))) (snd (world (snd (loop_body c self step ls)))))
                  = []"
    using s1
    by (cases "py_mod step (nth_step_save_checkpoint self)")
       (simp_all add: loop_body_no_report [OF t d] Let_def save_checkpoint_def call_def)
next
  assume n0: "min_loss self \<noteq> NaN"
    and no: "NaN \<notin> set (observed_validation_losses
                     (drop (length (snd s)) (snd (world (snd (train_and_validate c self s))))))"
  obtain added tail where t: "snd (world (snd (train_and_validate c self s)))
        = snd s @ SchedulerInit lr_scheduler # added @ tail"
    and tl: "tail = [] \<or> tail = [SaveDatasetToFile ''train'' True]"
    and m: "min_loss self \<noteq> NaN \<longrightarrow> NaN \<notin> set (observed_validation_losses added) \<longrightarrow>
          (\<forall>files. sorted_wrt (\<lambda>a b. pf_lt b a)
                      (min_loss self # map ck_min_loss (best_slot_writes files added)))"
    using run_best [of c self s] by blast
  have "NaN \<notin> set (observed_validation_losses added)"
    using no unfolding t by (simp add: ovl_run_shape [OF tl])
  then have fin: "\<forall>files. sorted_wrt (\<lambda>a b. pf_lt b a)
                      (min_loss self # map ck_min_loss (best_slot_writes files added))"
    using m n0 by blast
  have d: "drop (length (snd s)) (snd (world (snd (train_and_validate c self s))))
             = SchedulerInit lr_scheduler # added @ tail"
    unfolding t by simp
  show "\<forall>files. sorted_wrt (\<lambda>a b. pf_lt b a)
                   (min_loss self
                    # map ck_min_loss
                        (best_slot_writes files
                           (drop (length (snd s))
                              (snd (world (snd (train_and_validate c self s)))))))"
    unfolding d bsw_run_shape [OF tl] by (rule fin)
qed

theorem best_slot_decreases_without_NaN_witness:
  "report_stats (demo_collab (\<lambda>w. Fin (1/2)) [''roc_auc'' \<mapsto> PyNone]) (demo_self 0 3 2 2 PInf)
       2 (Fin (1/2)) PInf (3, [])
     = (Inr (Fin (1/2)),
        (3, [ModelEval, MetricsUpdate, MetricsLog ''train'' [Val (PyFloat (Fin (1/2)))],
             MetricsLog ''validation'' [Val (PyFloat (Fin (1/2))), Lit ''NA''],
             TorchSave \<lparr>ck_step = 2, ck_state = 3, ck_min_loss = Fin (1/2)\<rparr>
               ''checkpoint.pth.tar'',
             CopyFile ''checkpoint.pth.tar'' ''best_model.pth.tar'']))
   \<and> pf_lt (Fin (1/2)) PInf
   \<and> min_loss (demo_self 0 3 2 2 PInf) \<noteq> NaN
   \<and> observed_validation_losses (snd (world (snd (train_and_validate
          (demo_collab (\<lambda>w. Fin (1/2)) [''roc_auc'' \<mapsto> PyNone]) (demo_self 0 3 2 2 PInf)
          (0, []))))) = [Fin (1/2)]
   \<and> sorted_wrt (\<lambda>a b. pf_lt b a)
        (PInf # map ck_min_loss (best_slot_writes Map.empty
           (snd (world (snd (train_and_validate
              (demo_collab (\<lambda>w. Fin (1/2)) [''roc_auc'' \<mapsto> PyNone]) (demo_self 0 3 2 2 PInf)
              (0, [])))))))
   \<and> map ck_min_loss (best_slot_writes Map.empty
           (snd (world (snd (train_and_validate
              (demo_collab (\<lambda>w. Fin (1/2)) [''roc_auc'' \<mapsto> PyNone]) (demo_self 0 3 2 2 PInf)
              (0, [])))))) = [Fin (1/2)]"
proof -
  let ?c = "demo_collab (\<lambda>w. Fin (1/2)) [''roc_auc'' \<mapsto> PyNone]"
  let ?self = "demo_self 0 3 2 2 PInf"
  let ?run = "snd (world (snd (train_and_validate ?c ?self (0, []))))"
  have o: "observed_validation_losses ?run = [Fin (1/2)]"
    using demo_run_3 [of "[]"] by (simp add: observed_validation_losses_def)
  have n: "min_loss ?self \<noteq> NaN" by (simp add: demo_self_fields)
  have b: "map ck_min_loss (best_slot_writes Map.empty ?run) = [Fin (1/2)]"
    using demo_run_3 [of "[]"] by simp
  have "sorted_wrt (\<lambda>a b. pf_lt b a)
          (min_loss ?self # map ck_min_loss (best_slot_writes Map.empty
             (drop (length (snd (0::nat, [] :: nat event list))) ?run)))"
    using best_slot_decreases_without_NaN
      [where c = ?c and self = ?self and s = "(0, [])" and step = 2 and trl = "Fin (1/2)"
         and ml = PInf and s' = "(3, [])" and ml' = "Fin (1/2)"]
      o n
    by simp
  then show ?thesis
    using o n b by (simp add: demo_report demo_self_fields)
qed

end
